theory Spec2Isabelle
  imports Complex_Main "HOL-Library.Word"
begin

section \<open>JavaScript values used by the order routes\<close>

text \<open>
  The order routes compute with JavaScript numbers read from the request body and
  from the catalog. A number is modelled as \<open>rat option\<close>: \<open>Some q\<close> is the
  finite number \<open>q\<close> (rounding of doubles is not modelled), \<open>None\<close> is what the
  code has when the field is missing (\<open>undefined\<close>) or when the arithmetic gave
  \<open>NaN\<close>; both are falsy and both turn every product and sum into \<open>NaN\<close>.
  Request fields that hold something other than a number (a string, \<open>null\<close>)
  are outside the model.
\<close>

type_synonym number = "rat option"

definition truthy :: "number \<Rightarrow> bool" where
  "truthy x = (case x of None \<Rightarrow> False | Some v \<Rightarrow> v \<noteq> 0)"

definition js_or :: "number \<Rightarrow> number \<Rightarrow> number" where
  \<comment> \<open>\<open>a || b\<close> on numbers\<close>
  "js_or a b = (if truthy a then a else b)"

definition js_mul :: "number \<Rightarrow> number \<Rightarrow> number" where
  "js_mul a b = (case a of None \<Rightarrow> None | Some x \<Rightarrow> (case b of None \<Rightarrow> None | Some y \<Rightarrow> Some (x * y)))"

definition js_add :: "number \<Rightarrow> number \<Rightarrow> number" where
  "js_add a b = (case a of None \<Rightarrow> None | Some x \<Rightarrow> (case b of None \<Rightarrow> None | Some y \<Rightarrow> Some (x + y)))"

section \<open>Data model (the Mongoose schemas)\<close>

datatype tier = Standard | Express | Superfast

datatype pricing_model = PerKg | PerItem | PerPair

text \<open>One entry of \<open>serviceSchema.subcategories\<close>.\<close>

record subcategory =
  cat_itemName :: string
  cat_price :: rat

text \<open>
  \<open>serviceSchema\<close>. The rates are required only for their own pricing model and the
  multipliers have schema defaults, so each may be missing in a stored document; the
  express and superfast TAT strings are optional.
\<close>

record service =
  sid :: nat
  categoryName :: string
  pricingModel :: pricing_model
  svc_pricePerKg :: number
  svc_pricePerPair :: number
  subcategories :: "subcategory list"
  standardTAT :: string
  expressTAT :: "string option"
  expressPriceMultiplier :: number
  superfastTAT :: "string option"
  superfastPriceMultiplier :: number

text \<open>
  An element of \<open>subItems\<close>, in the request and (after \<open>{ ...sub, pricePerItem }\<close>)
  in the stored order.
\<close>

record sub_item =
  itemName :: string
  quantity :: number
  pricePerItem :: number

text \<open>
  A line item: the plain object of the request body and, once processed, the element of
  \<open>orderSchema.items\<close>. \<open>serviceType\<close> is the schema's enum; a request naming any
  other string is outside the model. \<open>subItems = None\<close> is a missing array.
\<close>

record item =
  serviceCategoryID :: nat
  serviceType :: tier
  weightInKg :: number
  pairCount :: number
  pricePerKg :: number
  pricePerPair :: number
  subItems :: "sub_item list option"
  itemTotal :: number

text \<open>
  What a route answers when it does not answer with the order(s): the early
  \<open>return res.status(...)\<close> exits, and the exceptions its \<open>catch\<close> receives.
\<close>

datatype error =
    EmptyOrder
  | CustomerNotFound
  | NoCurrentAddress
  | InvalidServiceID nat
  | OrderNotFound
  | ValidationError
  | TypeError


text \<open>
  The HTTP status of the answer of \<open>app.put('/api/orders/:id')\<close>: its \<open>catch\<close> answers
  500 for every exception.
\<close>

fun put_status :: "error \<Rightarrow> nat" where
  "put_status OrderNotFound = 404"
| "put_status (InvalidServiceID _) = 400"
| "put_status _ = 500"

section \<open>Pricing one line item\<close>

text \<open>
  Lines 869-874 and 990-995: the multiplier of the item's tier.
\<close>

definition multiplier :: "service \<Rightarrow> tier \<Rightarrow> number" where
  "multiplier service t =
     (case t of
        Standard \<Rightarrow> Some 1
      | Express \<Rightarrow> js_or (expressPriceMultiplier service) (Some (3 / 2))
      | Superfast \<Rightarrow> js_or (superfastPriceMultiplier service) (Some 2))"

text \<open>
  The loop over \<open>item.subItems\<close> of the \<open>PerItem\<close> case. The catalog entry is read
  only when the sub-item carries no truthy \<open>pricePerItem\<close> (\<open>||\<close> evaluates its right
  operand lazily); reading \<open>.price\<close> of the \<open>undefined\<close> that \<open>find\<close> returned
  throws a TypeError.
\<close>

fun priceSubItems ::
  "service \<Rightarrow> number \<Rightarrow> sub_item list \<Rightarrow> number \<Rightarrow> sub_item list \<Rightarrow> error + (number \<times> sub_item list)"
where
  "priceSubItems service m [] currentItemTotal acc = Inr (currentItemTotal, acc)"
| "priceSubItems service m (sub # subs) currentItemTotal acc =
     (if truthy (pricePerItem sub) then
        priceSubItems service m subs
          (js_add currentItemTotal (js_mul (quantity sub) (pricePerItem sub)))
          (acc @ [sub])
      else
        (case find (\<lambda>s. cat_itemName s = itemName sub) (subcategories service) of
           None \<Rightarrow> Inl TypeError
         | Some serviceSubItem \<Rightarrow>
             (let p = js_mul (Some (cat_price serviceSubItem)) m in
              priceSubItems service m subs
                (js_add currentItemTotal (js_mul (quantity sub) p))
                (acc @ [sub\<lparr>pricePerItem := p\<rparr>]))))"

text \<open>
  Lines 869-899 of the create route and, word for word, lines 990-1020 of the update
  route: the processed item of one request item, given the service the catalog
  returned for it.
\<close>

definition processItem :: "service \<Rightarrow> item \<Rightarrow> error + item" where
  "processItem service it =
     (let m = multiplier service (serviceType it);
          processedItem = \<lparr>serviceCategoryID = sid service, serviceType = serviceType it,
             weightInKg = None, pairCount = None, pricePerKg = None, pricePerPair = None,
             subItems = None, itemTotal = None\<rparr>
      in case pricingModel service of
           PerKg \<Rightarrow>
             (let p = js_or (pricePerKg it) (js_mul (svc_pricePerKg service) m) in
              Inr (processedItem\<lparr>weightInKg := weightInKg it, pricePerKg := p,
                     itemTotal := js_mul (weightInKg it) p\<rparr>))
         | PerPair \<Rightarrow>
             (let p = js_or (pricePerPair it) (js_mul (svc_pricePerPair service) m) in
              Inr (processedItem\<lparr>pairCount := pairCount it, pricePerPair := p,
                     itemTotal := js_mul (pairCount it) p\<rparr>))
         | PerItem \<Rightarrow>
             (case subItems it of
                None \<Rightarrow> Inl TypeError
              | Some subs \<Rightarrow>
                  (case priceSubItems service m subs (Some 0) [] of
                     Inl e \<Rightarrow> Inl e
                   | Inr (tot, psubs) \<Rightarrow>
                       Inr (processedItem\<lparr>subItems := Some psubs, itemTotal := tot\<rparr>))))"

text \<open>
  The loop over the items of one order (lines 865-902 and 986-1023): each item's service
  is fetched, a missing service answers 400 at once, and the bill accumulates the item
  totals from 0 in the order of the items.
\<close>

fun processItems ::
  "(nat \<Rightarrow> service option) \<Rightarrow> item list \<Rightarrow> number \<Rightarrow> item list \<Rightarrow> error + (item list \<times> number)"
where
  "processItems services [] serverCalculatedBill processedItems =
     Inr (processedItems, serverCalculatedBill)"
| "processItems services (it # its) serverCalculatedBill processedItems =
     (case services (serviceCategoryID it) of
        None \<Rightarrow> Inl (InvalidServiceID (serviceCategoryID it))
      | Some service \<Rightarrow>
          (case processItem service it of
             Inl e \<Rightarrow> Inl e
           | Inr processedItem \<Rightarrow>
               processItems services its
                 (js_add serverCalculatedBill (itemTotal processedItem))
                 (processedItems @ [processedItem])))"

section \<open>The store\<close>

datatype order_status = New | Cancelled | PickupPending | InProgress | DeliveryPending | Delivered

datatype payment_status = Pending | Confirmed

datatype payment_method = Cash | UPI

datatype order_source = Call | WalkIn

datatype delivery_type = StorePickup | HomeDelivery

datatype slot_type = Pickup | Delivery

text \<open>
  \<open>embeddedAddressSchema\<close>, after \<open>populate('addresses.society')\<close>: \<open>society\<close> is the
  name of the referenced society, \<open>None\<close> when the reference resolves to nothing.
\<close>

record embeddedAddress =
  address :: string
  society :: "string option"
  pincode :: string
  isCurrent :: bool

record customer =
  customerName :: string
  phone :: string
  addresses :: "embeddedAddress list"

record staff_member =
  staff_name :: string

record slot =
  slot_id :: nat
  slotName :: string
  slotType :: slot_type
  maxCapacity :: nat

text \<open>
  \<open>orderSchema\<close>. Instants are milliseconds since the epoch; \<open>orderedOn\<close> is the
  creation timestamp (\<open>timestamps: { createdAt: 'orderedOn' }\<close>).
\<close>

record order =
  orderId :: string
  customerID :: nat
  deliveryAddress :: string
  deliverySociety :: string
  deliveryPincode :: "string option"
  orderSource :: order_source
  deliveryType :: delivery_type
  items :: "item list"
  billAmount :: number
  orderStatus :: order_status
  paymentStatus :: payment_status
  paymentMethod :: payment_method
  transactionID :: "string option"
  pickupDate :: "int option"
  pickupSlot :: "nat option"
  pickupAgent :: "nat option"
  pickupAgentName :: "string option"
  deliveryDate :: "int option"
  expectedDeliveryDate :: "int option"
  deliverySlot :: "nat option"
  deliveryAgent :: "nat option"
  deliveryAgentName :: "string option"
  orderedOn :: int

text \<open>
  The collections the order routes read and write. \<open>findById\<close> is application of the
  map; \<open>Order.findOne({ orderId })\<close> and \<open>Slot.findOne({ slotType })\<close> take the first
  match of the list.
\<close>

record store =
  customers :: "nat \<Rightarrow> customer option"
  services :: "nat \<Rightarrow> service option"
  staff :: "nat \<Rightarrow> staff_member option"
  slots :: "slot list"
  orders :: "order list"

section \<open>Expected delivery (calculateExpectedDelivery)\<close>

text \<open>
  \<open>parseInt(s, 10)\<close>: leading white space is skipped, one sign is read, then the
  longest run of decimal digits; \<open>None\<close> is \<open>NaN\<close> (no digit). Strings are ASCII here,
  and the value is the exact integer.
\<close>

definition isStrWhiteSpace :: "char \<Rightarrow> bool" where
  "isStrWhiteSpace c = (c \<in> set [CHR 0x09, CHR 0x0A, CHR 0x0B, CHR 0x0C, CHR 0x0D, CHR '' ''])"

definition isDigit :: "char \<Rightarrow> bool" where
  "isDigit c = (48 \<le> (of_char c :: nat) \<and> (of_char c :: nat) \<le> 57)"

definition digitsValue :: "string \<Rightarrow> nat" where
  "digitsValue Z = foldl (\<lambda>a c. 10 * a + (of_char c - 48)) 0 Z"

definition parseInt :: "string \<Rightarrow> int option" where
  "parseInt s =
     (let S = dropWhile isStrWhiteSpace s;
          negative = (S \<noteq> [] \<and> hd S = CHR ''-'');
          S' = (if S \<noteq> [] \<and> (hd S = CHR ''+'' \<or> hd S = CHR ''-'') then tl S else S);
          Z = takeWhile isDigit S'
      in if Z = [] then None
         else Some (if negative then - int (digitsValue Z) else int (digitsValue Z)))"

text \<open>
  \<open>parseInt(tatString, 10) || 0\<close>; a missing TAT string is \<open>undefined\<close>, which
  \<open>parseInt\<close> reads as the text "undefined".
\<close>

definition tatHoursOf :: "string option \<Rightarrow> int" where
  "tatHoursOf tatString =
     (case parseInt (case tatString of None \<Rightarrow> ''undefined'' | Some s \<Rightarrow> s) of
        None \<Rightarrow> 0
      | Some h \<Rightarrow> h)"

text \<open>The \<open>switch\<close> on \<open>item.serviceType\<close>.\<close>

definition tatString :: "service \<Rightarrow> tier \<Rightarrow> string option" where
  "tatString service t =
     (case t of
        Express \<Rightarrow> expressTAT service
      | Superfast \<Rightarrow> superfastTAT service
      | Standard \<Rightarrow> Some (standardTAT service))"

text \<open>A JavaScript \<open>Date\<close> object: an instant, or the Invalid Date.\<close>

datatype js_date = Invalid_Date | Date int

text \<open>
  A time value becomes a \<open>Date\<close> through \<open>TimeClip\<close>: an instant more than
  8.64e15 ms from the epoch is the Invalid Date.
\<close>

definition timeClip :: "int \<Rightarrow> js_date" where
  "timeClip t = (if \<bar>t\<bar> \<le> 8640000000000000 then Date t else Invalid_Date)"

text \<open>
  The time zone of the server, which the code reads through \<open>getHours\<close> and
  \<open>setHours\<close>: the operations \<open>LocalTime\<close> (from an instant to the local time
  value) and \<open>UTC\<close> (back) of the language. It is a parameter of the routes.
\<close>

record time_zone =
  localTime :: "int \<Rightarrow> int"
  utc :: "int \<Rightarrow> int"

text \<open>
  \<open>d.setHours(d.getHours() + h)\<close>: the hour field of the local time is replaced, which
  moves the local time value by \<open>h\<close> hours; the result is taken back to an instant and
  clipped. (The arithmetic is exact here.)
\<close>

fun addHours :: "time_zone \<Rightarrow> js_date \<Rightarrow> int \<Rightarrow> js_date" where
  "addHours zone Invalid_Date h = Invalid_Date"
| "addHours zone (Date t) h = timeClip (utc zone (localTime zone t + h * 3600000))"

text \<open>The loop of \<open>calculateExpectedDelivery\<close>, with \<open>maxTatHours\<close> as accumulator.\<close>

fun maxTatLoop :: "(nat \<Rightarrow> service option) \<Rightarrow> item list \<Rightarrow> int \<Rightarrow> int" where
  "maxTatLoop svcs [] maxTatHours = maxTatHours"
| "maxTatLoop svcs (it # its) maxTatHours =
     (case svcs (serviceCategoryID it) of
        None \<Rightarrow> maxTatLoop svcs its maxTatHours
      | Some service \<Rightarrow>
          (let tatHours = tatHoursOf (tatString service (serviceType it)) in
           maxTatLoop svcs its (if tatHours > maxTatHours then tatHours else maxTatHours)))"

text \<open>\<open>startDate = None\<close> is a falsy start (\<open>null\<close>, \<open>undefined\<close>).\<close>

definition calculateExpectedDelivery ::
  "time_zone \<Rightarrow> (nat \<Rightarrow> service option) \<Rightarrow> item list \<Rightarrow> js_date option \<Rightarrow> js_date option"
where
  "calculateExpectedDelivery zone svcs its startDate =
     (case startDate of
        None \<Rightarrow> None
      | Some d \<Rightarrow>
          (let maxTatHours = maxTatLoop svcs its 0 in
           if maxTatHours > 0 then Some (addHours zone d maxTatHours) else None))"

section \<open>Order identifiers (generateOrderId)\<close>

definition hexDigit :: "nat \<Rightarrow> char" where
  "hexDigit n = ''0123456789abcdef'' ! (n mod 16)"

definition byteHex :: "8 word \<Rightarrow> string" where
  "byteHex b = [hexDigit (unat b div 16), hexDigit (unat b mod 16)]"

definition toUpperChar :: "char \<Rightarrow> char" where
  "toUpperChar c =
     (case map_of (zip ''abcdefghijklmnopqrstuvwxyz'' ''ABCDEFGHIJKLMNOPQRSTUVWXYZ'') c of
        None \<Rightarrow> c
      | Some u \<Rightarrow> u)"

definition toUpperCase :: "string \<Rightarrow> string" where
  "toUpperCase s = map toUpperChar s"

text \<open>
  \<open>crypto.randomBytes(3).toString('hex').slice(0, 5).toUpperCase()\<close> for the three
  bytes drawn.
\<close>

definition orderCode :: "8 word \<times> 8 word \<times> 8 word \<Rightarrow> string" where
  "orderCode bs =
     (case bs of (b1, b2, b3) \<Rightarrow> toUpperCase (take 5 (byteHex b1 @ byteHex b2 @ byteHex b3)))"

text \<open>
  The random source is the sequence \<open>randomBytes\<close> of the draws \<open>crypto.randomBytes(3)\<close>
  will return; \<open>n\<close> counts the draws made so far. The loop has no bound in the source:
  it returns no value (\<open>None\<close>) when every further draw names a stored order.
\<close>

partial_function (option) generateOrderId ::
  "(nat \<Rightarrow> 8 word \<times> 8 word \<times> 8 word) \<Rightarrow> order list \<Rightarrow> nat \<Rightarrow> (string \<times> nat) option"
where
  "generateOrderId randomBytes os n =
     (case find (\<lambda>ord. orderId ord = ''WX-'' @ orderCode (randomBytes n)) os of
        None \<Rightarrow> Some (''WX-'' @ orderCode (randomBytes n), Suc n)
      | Some existingOrder \<Rightarrow> generateOrderId randomBytes os (Suc n))"

declare generateOrderId.simps [code]

section \<open>Creating orders (app.post('/api/orders'))\<close>

text \<open>
  The request body. \<open>None\<close> is a missing key. \<open>...req.body\<close> copies every key into
  the new order's data; the keys the route then overwrites (\<open>billAmount\<close> and the three
  address fields are kept here, as what the caller may send) never reach the order.
\<close>

record order_request =
  rq_customerID :: nat
  rq_items :: "item list option"
  rq_pickupAgent :: "nat option"
  rq_isPickupScheduled :: bool
  rq_pickupDate :: "int option"
  rq_pickupSlot :: "nat option"
  rq_pickupAgentName :: "string option"
  rq_billAmount :: number
  rq_deliveryAddress :: "string option"
  rq_deliverySociety :: "string option"
  rq_deliveryPincode :: "string option"
  rq_orderSource :: "order_source option"
  rq_deliveryType :: "delivery_type option"
  rq_paymentStatus :: "payment_status option"
  rq_paymentMethod :: "payment_method option"
  rq_transactionID :: "string option"
  rq_deliveryDate :: "int option"
  rq_deliverySlot :: "nat option"
  rq_deliveryAgent :: "nat option"
  rq_deliveryAgentName :: "string option"

text \<open>\<open>customer.addresses.find(a => a.isCurrent) || customer.addresses[0]\<close>\<close>

definition currentAddressOf :: "customer \<Rightarrow> embeddedAddress option" where
  "currentAddressOf c =
     (case find isCurrent (addresses c) of
        Some a \<Rightarrow> Some a
      | None \<Rightarrow> (case addresses c of [] \<Rightarrow> None | a # _ \<Rightarrow> Some a))"

text \<open>
  The \<open>reduce\<close> that builds \<open>itemGroups\<close>: an object keyed by tier, whose keys
  \<open>for ... in\<close> visits in the order they were first set.
\<close>

fun addToGroups :: "(tier \<times> item list) list \<Rightarrow> item \<Rightarrow> (tier \<times> item list) list" where
  "addToGroups [] it = [(serviceType it, [it])]"
| "addToGroups ((t, g) # gs) it =
     (if t = serviceType it then (t, g @ [it]) # gs else (t, g) # addToGroups gs it)"

definition itemGroups :: "item list \<Rightarrow> (tier \<times> item list) list" where
  "itemGroups its = foldl addToGroups [] its"

text \<open>
  What \<open>newOrder.save()\<close> validates against \<open>orderSchema\<close>, for the values the model
  can hold: required strings are not empty, required numbers are numbers, the
  \<open>min\<close> bounds hold where the field is set, and a date is a valid date.
\<close>

definition validSubItem :: "sub_item \<Rightarrow> bool" where
  "validSubItem sub =
     (itemName sub \<noteq> [] \<and>
      (case quantity sub of None \<Rightarrow> False | Some q \<Rightarrow> 1 \<le> q) \<and> pricePerItem sub \<noteq> None)"

definition validDate :: "int option \<Rightarrow> bool" where
  "validDate d = (case d of None \<Rightarrow> True | Some t \<Rightarrow> timeClip t \<noteq> Invalid_Date)"

definition validItem :: "item \<Rightarrow> bool" where
  "validItem it =
     (itemTotal it \<noteq> None \<and>
      (case weightInKg it of None \<Rightarrow> True | Some w \<Rightarrow> 0 \<le> w) \<and>
      (case pairCount it of None \<Rightarrow> True | Some c \<Rightarrow> 0 \<le> c) \<and>
      (case subItems it of None \<Rightarrow> True | Some subs \<Rightarrow> list_all validSubItem subs))"

definition validOrder :: "order \<Rightarrow> bool" where
  "validOrder ord =
     (orderId ord \<noteq> [] \<and> deliveryAddress ord \<noteq> [] \<and> deliverySociety ord \<noteq> [] \<and>
      list_all validItem (items ord) \<and> billAmount ord \<noteq> None \<and>
      validDate (pickupDate ord) \<and> validDate (deliveryDate ord))"

text \<open>
  Lines 904-929: the data of the new order of one group. \<open>now\<close> is the instant of
  \<open>new Date()\<close> and of the creation timestamp. \<open>new Date(req.body.pickupDate)\<close> is the
  Invalid Date when the request has no pickup date.
\<close>

definition calculationStartDate :: "int \<Rightarrow> order_request \<Rightarrow> js_date" where
  "calculationStartDate now req =
     (if rq_isPickupScheduled req
      then (case rq_pickupDate req of None \<Rightarrow> Invalid_Date | Some t \<Rightarrow> timeClip t)
      else timeClip now)"

definition newOrderData ::
  "int \<Rightarrow> order_request \<Rightarrow> embeddedAddress \<Rightarrow> string \<Rightarrow> item list \<Rightarrow> number \<Rightarrow> string \<Rightarrow>
   int option \<Rightarrow> order"
where
  "newOrderData now req currentAddress societyName processedItems serverCalculatedBill oid expected =
     \<lparr>orderId = oid,
      customerID = rq_customerID req,
      deliveryAddress = address currentAddress,
      deliverySociety = societyName,
      deliveryPincode = Some (pincode currentAddress),
      orderSource = (case rq_orderSource req of None \<Rightarrow> Call | Some v \<Rightarrow> v),
      deliveryType = (case rq_deliveryType req of None \<Rightarrow> HomeDelivery | Some v \<Rightarrow> v),
      items = processedItems,
      billAmount = serverCalculatedBill,
      orderStatus =
        (if rq_isPickupScheduled req
         then (if rq_pickupAgent req \<noteq> None then PickupPending else New)
         else InProgress),
      paymentStatus = (case rq_paymentStatus req of None \<Rightarrow> Pending | Some v \<Rightarrow> v),
      paymentMethod = (case rq_paymentMethod req of None \<Rightarrow> Cash | Some v \<Rightarrow> v),
      transactionID = rq_transactionID req,
      pickupDate = (if rq_isPickupScheduled req then rq_pickupDate req else None),
      pickupSlot = (if rq_isPickupScheduled req then rq_pickupSlot req else None),
      pickupAgent = (if rq_isPickupScheduled req then rq_pickupAgent req else None),
      pickupAgentName = rq_pickupAgentName req,
      deliveryDate = rq_deliveryDate req,
      expectedDeliveryDate = expected,
      deliverySlot = rq_deliverySlot req,
      deliveryAgent = rq_deliveryAgent req,
      deliveryAgentName = rq_deliveryAgentName req,
      orderedOn = now\<rparr>"

text \<open>
  The body of the \<open>for (const serviceType in itemGroups)\<close> loop, for one group: the
  items are priced, the address snapshot is read (a society that did not populate throws),
  the identifier is drawn, the expected delivery is computed, and the order is saved.
  The result is the stored orders, the number of draws made, and the saved order or the
  error that ended the request; \<open>None\<close> when the identifier loop never returns.
\<close>

definition createOrder ::
  "time_zone \<Rightarrow> (nat \<Rightarrow> 8 word \<times> 8 word \<times> 8 word) \<Rightarrow> int \<Rightarrow> (nat \<Rightarrow> service option) \<Rightarrow> order_request \<Rightarrow>
   embeddedAddress \<Rightarrow> item list \<Rightarrow> order list \<Rightarrow> nat \<Rightarrow> (order list \<times> nat \<times> (error + order)) option"
where
  "createOrder zone randomBytes now svcs req currentAddress groupItems os n =
     (case processItems svcs groupItems (Some 0) [] of
        Inl e \<Rightarrow> Some (os, n, Inl e)
      | Inr (processedItems, serverCalculatedBill) \<Rightarrow>
          (case society currentAddress of
             None \<Rightarrow> Some (os, n, Inl TypeError)
           | Some societyName \<Rightarrow>
               (case generateOrderId randomBytes os n of
                  None \<Rightarrow> None
                | Some (oid, n') \<Rightarrow>
                    (case calculateExpectedDelivery zone svcs processedItems
                            (Some (calculationStartDate now req)) of
                       Some Invalid_Date \<Rightarrow> Some (os, n', Inl ValidationError)
                     | expected \<Rightarrow>
                         (let newOrder = newOrderData now req currentAddress societyName
                                processedItems serverCalculatedBill oid
                                (case expected of Some (Date t) \<Rightarrow> Some t | _ \<Rightarrow> None)
                          in if validOrder newOrder
                             then Some (os @ [newOrder], n', Inr newOrder)
                             else Some (os, n', Inl ValidationError))))))"

text \<open>
  The loop over the groups: an error ends the request, and the orders of the earlier
  groups stay stored.
\<close>

fun createOrders ::
  "time_zone \<Rightarrow> (nat \<Rightarrow> 8 word \<times> 8 word \<times> 8 word) \<Rightarrow> int \<Rightarrow> (nat \<Rightarrow> service option) \<Rightarrow> order_request \<Rightarrow>
   embeddedAddress \<Rightarrow> (tier \<times> item list) list \<Rightarrow> order list \<Rightarrow> nat \<Rightarrow> order list \<Rightarrow>
   (order list \<times> nat \<times> (error + order list)) option"
where
  "createOrders zone randomBytes now svcs req currentAddress [] os n createdOrders =
     Some (os, n, Inr createdOrders)"
| "createOrders zone randomBytes now svcs req currentAddress (grp # groups) os n createdOrders =
     (case createOrder zone randomBytes now svcs req currentAddress (snd grp) os n of
        None \<Rightarrow> None
      | Some (os', n', Inl e) \<Rightarrow> Some (os', n', Inl e)
      | Some (os', n', Inr newOrder) \<Rightarrow>
          createOrders zone randomBytes now svcs req currentAddress groups os' n'
            (createdOrders @ [newOrder]))"

text \<open>
  The route: the checks of lines 844-852 in the order of the source, then the loop.
  It returns the store after the request, the number of draws made, and the created
  orders or the error answered.
\<close>

definition post_orders ::
  "time_zone \<Rightarrow> (nat \<Rightarrow> 8 word \<times> 8 word \<times> 8 word) \<Rightarrow> int \<Rightarrow> store \<Rightarrow> nat \<Rightarrow> order_request \<Rightarrow>
   (store \<times> nat \<times> (error + order list)) option"
where
  "post_orders zone randomBytes now st n req =
     (case rq_items req of
        None \<Rightarrow> Some (st, n, Inl EmptyOrder)
      | Some its \<Rightarrow>
          if its = [] then Some (st, n, Inl EmptyOrder)
          else
            (case customers st (rq_customerID req) of
               None \<Rightarrow> Some (st, n, Inl CustomerNotFound)
             | Some c \<Rightarrow>
                 (case currentAddressOf c of
                    None \<Rightarrow> Some (st, n, Inl NoCurrentAddress)
                  | Some currentAddress \<Rightarrow>
                      (case createOrders zone randomBytes now (services st) req currentAddress
                              (itemGroups its) (orders st) n [] of
                         None \<Rightarrow> None
                       | Some (os', n', r) \<Rightarrow> Some (st\<lparr>orders := os'\<rparr>, n', r)))))"

section \<open>Updating an order (app.put('/api/orders/:id'))\<close>

text \<open>
  The request body of an update, and \<open>updateData\<close> as the route rewrites it: one
  optional entry per key of the order. \<open>None\<close> is a missing key; for a key whose value
  may be \<open>null\<close>, \<open>Some None\<close> is the key present with \<open>null\<close>. The keys
  \<open>orderId\<close>, \<open>customerID\<close> and \<open>orderedOn\<close> are not part of a patch here.
\<close>

record order_patch =
  pt_pickupAgent :: "nat option option"
  pt_pickupAgentName :: "string option option"
  pt_deliveryAgent :: "nat option option"
  pt_deliveryAgentName :: "string option option"
  pt_deliveryDate :: "int option option"
  pt_deliverySlot :: "nat option option"
  pt_items :: "item list option"
  pt_billAmount :: "number option"
  pt_expectedDeliveryDate :: "js_date option option"
  pt_pickupDate :: "int option option"
  pt_pickupSlot :: "nat option option"
  pt_deliveryAddress :: "string option"
  pt_deliverySociety :: "string option"
  pt_deliveryPincode :: "string option option"
  pt_orderSource :: "order_source option"
  pt_deliveryType :: "delivery_type option"
  pt_orderStatus :: "order_status option"
  pt_paymentStatus :: "payment_status option"
  pt_paymentMethod :: "payment_method option"
  pt_transactionID :: "string option option"

text \<open>Lines 954-961 and 963-970: the agent's name follows the agent.\<close>

definition agentName :: "(nat \<Rightarrow> staff_member option) \<Rightarrow> nat option \<Rightarrow> string option" where
  "agentName stf a =
     (case a of
        None \<Rightarrow> None
      | Some i \<Rightarrow> (case stf i of None \<Rightarrow> None | Some agent \<Rightarrow> Some (staff_name agent)))"

definition setPickupAgentName :: "(nat \<Rightarrow> staff_member option) \<Rightarrow> order_patch \<Rightarrow> order_patch" where
  "setPickupAgentName stf updateData =
     (case pt_pickupAgent updateData of
        None \<Rightarrow> updateData
      | Some a \<Rightarrow> updateData\<lparr>pt_pickupAgentName := Some (agentName stf a)\<rparr>)"

definition setDeliveryAgentName :: "(nat \<Rightarrow> staff_member option) \<Rightarrow> order_patch \<Rightarrow> order_patch" where
  "setDeliveryAgentName stf updateData =
     (case pt_deliveryAgent updateData of
        None \<Rightarrow> updateData
      | Some a \<Rightarrow> updateData\<lparr>pt_deliveryAgentName := Some (agentName stf a)\<rparr>)"

text \<open>
  Lines 972-981: \<open>if (updateData.deliveryDate)\<close> is true for a date and false for
  \<open>null\<close> and for a missing key alike.
\<close>

definition setDeliverySlot :: "slot list \<Rightarrow> order_patch \<Rightarrow> order_patch" where
  "setDeliverySlot sl updateData =
     (case pt_deliveryDate updateData of
        Some (Some d) \<Rightarrow>
          (case find (\<lambda>s. slotType s = Delivery) sl of
             Some allDayDeliverySlot \<Rightarrow>
               updateData\<lparr>pt_deliverySlot := Some (Some (slot_id allDayDeliverySlot))\<rparr>
           | None \<Rightarrow> updateData)
      | _ \<Rightarrow> updateData\<lparr>pt_deliverySlot := Some None\<rparr>)"

text \<open>
  Lines 983-1028: when the patch has items they are priced again, and the bill and the
  expected delivery are recomputed. An empty array is truthy.
\<close>

definition updateStartDate :: "order \<Rightarrow> order_patch \<Rightarrow> js_date option" where
  "updateStartDate originalOrder updateData =
     (if orderSource originalOrder = WalkIn then Some (timeClip (orderedOn originalOrder))
      else (case pt_pickupDate updateData of
              Some (Some t) \<Rightarrow> Some (timeClip t)
            | _ \<Rightarrow> map_option timeClip (pickupDate originalOrder)))"

definition repriceItems ::
  "time_zone \<Rightarrow> (nat \<Rightarrow> service option) \<Rightarrow> order \<Rightarrow> order_patch \<Rightarrow> error + order_patch"
where
  "repriceItems zone svcs originalOrder updateData =
     (case pt_items updateData of
        None \<Rightarrow> Inr updateData
      | Some its \<Rightarrow>
          (case processItems svcs its (Some 0) [] of
             Inl e \<Rightarrow> Inl e
           | Inr (processedItems, serverCalculatedBill) \<Rightarrow>
               Inr (updateData\<lparr>pt_items := Some processedItems,
                      pt_billAmount := Some serverCalculatedBill,
                      pt_expectedDeliveryDate :=
                        Some (calculateExpectedDelivery zone svcs processedItems
                                (updateStartDate originalOrder updateData))\<rparr>)))"

text \<open>Lines 1029-1030.\<close>

definition stripAddress :: "order_patch \<Rightarrow> order_patch" where
  "stripAddress updateData =
     updateData\<lparr>pt_deliveryAddress := None, pt_deliverySociety := None\<rparr>"

text \<open>
  \<open>findOneAndUpdate({ orderId }, updateData)\<close> sets every key of \<open>updateData\<close> on the
  order and leaves the others.
\<close>

definition patched :: "'a \<Rightarrow> 'a option \<Rightarrow> 'a" where
  "patched old new = (case new of None \<Rightarrow> old | Some v \<Rightarrow> v)"

definition applyUpdate :: "order \<Rightarrow> order_patch \<Rightarrow> order" where
  "applyUpdate ord updateData =
     ord\<lparr>deliveryAddress := patched (deliveryAddress ord) (pt_deliveryAddress updateData),
         deliverySociety := patched (deliverySociety ord) (pt_deliverySociety updateData),
         deliveryPincode := patched (deliveryPincode ord) (pt_deliveryPincode updateData),
         orderSource := patched (orderSource ord) (pt_orderSource updateData),
         deliveryType := patched (deliveryType ord) (pt_deliveryType updateData),
         items := patched (items ord) (pt_items updateData),
         billAmount := patched (billAmount ord) (pt_billAmount updateData),
         orderStatus := patched (orderStatus ord) (pt_orderStatus updateData),
         paymentStatus := patched (paymentStatus ord) (pt_paymentStatus updateData),
         paymentMethod := patched (paymentMethod ord) (pt_paymentMethod updateData),
         transactionID := patched (transactionID ord) (pt_transactionID updateData),
         pickupDate := patched (pickupDate ord) (pt_pickupDate updateData),
         pickupSlot := patched (pickupSlot ord) (pt_pickupSlot updateData),
         pickupAgent := patched (pickupAgent ord) (pt_pickupAgent updateData),
         pickupAgentName := patched (pickupAgentName ord) (pt_pickupAgentName updateData),
         deliveryDate := patched (deliveryDate ord) (pt_deliveryDate updateData),
         expectedDeliveryDate :=
           (case pt_expectedDeliveryDate updateData of
              None \<Rightarrow> expectedDeliveryDate ord
            | Some (Some (Date t)) \<Rightarrow> Some t
            | Some _ \<Rightarrow> None),
         deliverySlot := patched (deliverySlot ord) (pt_deliverySlot updateData),
         deliveryAgent := patched (deliveryAgent ord) (pt_deliveryAgent updateData),
         deliveryAgentName := patched (deliveryAgentName ord) (pt_deliveryAgentName updateData)\<rparr>"

fun replaceFirst :: "string \<Rightarrow> order \<Rightarrow> order list \<Rightarrow> order list" where
  "replaceFirst oid new [] = []"
| "replaceFirst oid new (ord # os) =
     (if orderId ord = oid then new # os else ord # replaceFirst oid new os)"

text \<open>
  The route. \<open>accepts\<close> stands for the casting and the update validators that Mongoose
  runs inside \<open>findOneAndUpdate\<close> (\<open>runValidators: true\<close>), which are not code of this
  repository: it is given the stored order and the final \<open>updateData\<close>, and a refusal
  throws. The result is the stored orders after the update and the updated order.
\<close>

definition put_orders ::
  "time_zone \<Rightarrow> (order \<Rightarrow> order_patch \<Rightarrow> bool) \<Rightarrow> store \<Rightarrow> string \<Rightarrow> order_patch \<Rightarrow> error + (order list \<times> order)"
where
  "put_orders zone accepts st oid body =
     (case find (\<lambda>ord. orderId ord = oid) (orders st) of
        None \<Rightarrow> Inl OrderNotFound
      | Some originalOrder \<Rightarrow>
          (case repriceItems zone (services st) originalOrder
                  (setDeliverySlot (slots st)
                     (setDeliveryAgentName (staff st) (setPickupAgentName (staff st) body))) of
             Inl e \<Rightarrow> Inl e
           | Inr priced \<Rightarrow>
               (let updateData = stripAddress priced in
                if pt_expectedDeliveryDate updateData = Some (Some Invalid_Date)
                then Inl ValidationError
                else if accepts originalOrder updateData
                then
                  (let updatedOrder = applyUpdate originalOrder updateData in
                   Inr (replaceFirst oid updatedOrder (orders st), updatedOrder))
                else Inl ValidationError)))"

section \<open>The seeded catalog and a small store\<close>

text \<open>The five services of \<open>seedServices\<close>, under the identifiers 1 to 5.\<close>

definition washAndFold :: service where
  "washAndFold = \<lparr>sid = 1, categoryName = ''Wash & Fold'', pricingModel = PerKg,
     svc_pricePerKg = Some 80, svc_pricePerPair = None, subcategories = [],
     standardTAT = ''48 Hours'', expressTAT = Some ''36 Hours'',
     expressPriceMultiplier = Some (3 / 2), superfastTAT = Some ''24 Hours'',
     superfastPriceMultiplier = Some 2\<rparr>"

definition washAndIron :: service where
  "washAndIron = \<lparr>sid = 2, categoryName = ''Wash & Iron'', pricingModel = PerKg,
     svc_pricePerKg = Some 100, svc_pricePerPair = None, subcategories = [],
     standardTAT = ''48 Hours'', expressTAT = Some ''36 Hours'',
     expressPriceMultiplier = Some (3 / 2), superfastTAT = Some ''24 Hours'',
     superfastPriceMultiplier = Some 2\<rparr>"

definition ironingOnly :: service where
  "ironingOnly = \<lparr>sid = 3, categoryName = ''Ironing Only'', pricingModel = PerItem,
     svc_pricePerKg = None, svc_pricePerPair = None,
     subcategories =
       [\<lparr>cat_itemName = ''Shirt'', cat_price = 20\<rparr>, \<lparr>cat_itemName = ''T-Shirt'', cat_price = 15\<rparr>,
        \<lparr>cat_itemName = ''Pants / Trousers'', cat_price = 25\<rparr>,
        \<lparr>cat_itemName = ''Jeans'', cat_price = 30\<rparr>, \<lparr>cat_itemName = ''Others'', cat_price = 20\<rparr>],
     standardTAT = ''24 Hours'', expressTAT = Some ''18 Hours'',
     expressPriceMultiplier = Some (3 / 2), superfastTAT = Some ''12 Hours'',
     superfastPriceMultiplier = Some 2\<rparr>"

definition dryCleaning :: service where
  "dryCleaning = \<lparr>sid = 4, categoryName = ''Dry Cleaning'', pricingModel = PerItem,
     svc_pricePerKg = None, svc_pricePerPair = None,
     subcategories =
       [\<lparr>cat_itemName = ''Kurta / Kurti'', cat_price = 80\<rparr>,
        \<lparr>cat_itemName = ''Saree (Plain)'', cat_price = 150\<rparr>,
        \<lparr>cat_itemName = ''Blazer / Coat'', cat_price = 200\<rparr>,
        \<lparr>cat_itemName = ''Sherwani'', cat_price = 350\<rparr>,
        \<lparr>cat_itemName = ''Lehenga'', cat_price = 400\<rparr>, \<lparr>cat_itemName = ''Others'', cat_price = 100\<rparr>],
     standardTAT = ''72 Hours'', expressTAT = Some ''54 Hours'',
     expressPriceMultiplier = Some (3 / 2), superfastTAT = Some ''36 Hours'',
     superfastPriceMultiplier = Some 2\<rparr>"

definition shoesAndFootwear :: service where
  "shoesAndFootwear = \<lparr>sid = 5, categoryName = ''Shoes & Footwear'', pricingModel = PerPair,
     svc_pricePerKg = None, svc_pricePerPair = Some 120, subcategories = [],
     standardTAT = ''72 Hours'', expressTAT = Some ''54 Hours'',
     expressPriceMultiplier = Some (3 / 2), superfastTAT = Some ''36 Hours'',
     superfastPriceMultiplier = Some 2\<rparr>"

definition seededServices :: "nat \<Rightarrow> service option" where
  "seededServices i =
     (if i = 1 then Some washAndFold else if i = 2 then Some washAndIron
      else if i = 3 then Some ironingOnly else if i = 4 then Some dryCleaning
      else if i = 5 then Some shoesAndFootwear else None)"

text \<open>A request item with only its service and tier set.\<close>

definition blankItem :: "nat \<Rightarrow> tier \<Rightarrow> item" where
  "blankItem s t = \<lparr>serviceCategoryID = s, serviceType = t, weightInKg = None, pairCount = None,
     pricePerKg = None, pricePerPair = None, subItems = None, itemTotal = None\<rparr>"

text \<open>A request and a patch with no optional key set.\<close>

definition blankRequest :: "nat \<Rightarrow> item list option \<Rightarrow> order_request" where
  "blankRequest c its = \<lparr>rq_customerID = c, rq_items = its, rq_pickupAgent = None,
     rq_isPickupScheduled = False, rq_pickupDate = None, rq_pickupSlot = None,
     rq_pickupAgentName = None, rq_billAmount = None, rq_deliveryAddress = None,
     rq_deliverySociety = None, rq_deliveryPincode = None, rq_orderSource = None,
     rq_deliveryType = None, rq_paymentStatus = None, rq_paymentMethod = None,
     rq_transactionID = None, rq_deliveryDate = None, rq_deliverySlot = None,
     rq_deliveryAgent = None, rq_deliveryAgentName = None\<rparr>"

definition blankPatch :: order_patch where
  "blankPatch = \<lparr>pt_pickupAgent = None, pt_pickupAgentName = None, pt_deliveryAgent = None,
     pt_deliveryAgentName = None, pt_deliveryDate = None, pt_deliverySlot = None,
     pt_items = None, pt_billAmount = None, pt_expectedDeliveryDate = None,
     pt_pickupDate = None, pt_pickupSlot = None, pt_deliveryAddress = None,
     pt_deliverySociety = None, pt_deliveryPincode = None, pt_orderSource = None,
     pt_deliveryType = None, pt_orderStatus = None, pt_paymentStatus = None,
     pt_paymentMethod = None, pt_transactionID = None\<rparr>"

text \<open>
  A store with the seeded catalog and the four seeded slots, one customer, two agents and
  one stored order (3 kg of Wash and Fold at the standard rate, out for delivery).
\<close>

definition sampleCustomer :: customer where
  "sampleCustomer = \<lparr>customerName = ''Asha Rao'', phone = ''9000000001'',
     addresses = [\<lparr>address = ''Flat 12, Block B'', society = Some ''ASBL Spire'',
                   pincode = ''500032'', isCurrent = True\<rparr>]\<rparr>"

definition sampleOrder :: order where
  "sampleOrder = \<lparr>orderId = ''WX-000CD'', customerID = 1,
     deliveryAddress = ''Flat 12, Block B'', deliverySociety = ''ASBL Spire'',
     deliveryPincode = Some ''500032'', orderSource = Call, deliveryType = HomeDelivery,
     items = [(blankItem 1 Standard)\<lparr>weightInKg := Some 3, pricePerKg := Some 80,
                itemTotal := Some 240\<rparr>],
     billAmount = Some 240, orderStatus = DeliveryPending, paymentStatus = Pending,
     paymentMethod = Cash, transactionID = None, pickupDate = Some 0, pickupSlot = Some 1,
     pickupAgent = Some 1, pickupAgentName = Some ''Ravi'', deliveryDate = Some 172800000,
     expectedDeliveryDate = Some 172800000, deliverySlot = Some 4, deliveryAgent = Some 2,
     deliveryAgentName = Some ''Meena'', orderedOn = 0\<rparr>"

definition sampleSlots :: "slot list" where
  "sampleSlots =
     [\<lparr>slot_id = 1, slotName = ''9 AM - 12 PM'', slotType = Pickup, maxCapacity = 5\<rparr>,
      \<lparr>slot_id = 2, slotName = ''12 PM - 3 PM'', slotType = Pickup, maxCapacity = 5\<rparr>,
      \<lparr>slot_id = 3, slotName = ''4 PM - 7 PM'', slotType = Pickup, maxCapacity = 5\<rparr>,
      \<lparr>slot_id = 4, slotName = ''9 AM - 10 PM'', slotType = Delivery, maxCapacity = 20\<rparr>]"

definition sampleStore :: store where
  "sampleStore = \<lparr>customers = (\<lambda>i. if i = 1 then Some sampleCustomer else None),
     services = seededServices,
     staff = (\<lambda>i. if i = 1 then Some \<lparr>staff_name = ''Ravi''\<rparr>
                   else if i = 2 then Some \<lparr>staff_name = ''Meena''\<rparr> else None),
     slots = sampleSlots,
     orders = [sampleOrder]\<rparr>"

text \<open>A sequence of draws: the \<open>n\<close>-th draw is the bytes \<open>n\<close>, 0x0C, 0xDE.\<close>

definition sampleBytes :: "nat \<Rightarrow> 8 word \<times> 8 word \<times> 8 word" where
  "sampleBytes n = (of_nat n, 0x0C, 0xDE)"

text \<open>A zone with the fixed offset of five and a half hours.\<close>

definition sampleZone :: time_zone where
  "sampleZone = \<lparr>localTime = (\<lambda>t. t + 19800000), utc = (\<lambda>t. t - 19800000)\<rparr>"

section \<open>Definitions used to state the properties\<close>

text \<open>
  The hours one item contributes to the expected delivery, as the specification words it:
  the hours parsed from \<open>standardTAT\<close> for a Standard item, from \<open>expressTAT\<close> for an
  Express item and from \<open>superfastTAT\<close> for a Superfast item; 0 when the catalog has
  no such service.
\<close>

definition itemTatHours :: "(nat \<Rightarrow> service option) \<Rightarrow> item \<Rightarrow> int" where
  "itemTatHours svcs it =
     (case svcs (serviceCategoryID it) of
        None \<Rightarrow> 0
      | Some service \<Rightarrow>
          (case serviceType it of
             Standard \<Rightarrow> tatHoursOf (Some (standardTAT service))
           | Express \<Rightarrow> tatHoursOf (expressTAT service)
           | Superfast \<Rightarrow> tatHoursOf (superfastTAT service)))"

text \<open>
  A zone in which the clocks go forward by one hour at the instant 86400000 (the local
  times of the skipped hour are read with the offset before the change), and a catalog
  whose only service has a turnaround of 2500000000 hours.
\<close>

definition springZone :: time_zone where
  "springZone = \<lparr>localTime = (\<lambda>t. if t < 86400000 then t else t + 3600000),
                  utc = (\<lambda>l. if l < 90000000 then l else l - 3600000)\<rparr>"

definition slowServices :: "nat \<Rightarrow> service option" where
  "slowServices i =
     (if i = 2 then Some (washAndIron\<lparr>standardTAT := ''2500000000 Hours''\<rparr>) else None)"


text \<open>
  The unit price as the specification words it: the caller's override when one is
  supplied, else the base rate times the multiplier of the tier, which is the catalog's
  multiplier (its default when the catalog has none).
\<close>

definition spec_multiplier :: "service \<Rightarrow> tier \<Rightarrow> rat" where
  "spec_multiplier service t =
     (case t of
        Standard \<Rightarrow> 1
      | Express \<Rightarrow> (case expressPriceMultiplier service of None \<Rightarrow> 3 / 2 | Some m \<Rightarrow> m)
      | Superfast \<Rightarrow> (case superfastPriceMultiplier service of None \<Rightarrow> 2 | Some m \<Rightarrow> m))"

definition spec_unitPrice :: "number \<Rightarrow> rat \<Rightarrow> rat \<Rightarrow> rat" where
  "spec_unitPrice override baseRate m = (case override of Some p \<Rightarrow> p | None \<Rightarrow> baseRate * m)"

text \<open>
  The same with the code's reading of "supplied": a number that is missing or zero
  gives way to the default.
\<close>

definition orDefault :: "number \<Rightarrow> rat \<Rightarrow> rat" where
  "orDefault x d = (case x of None \<Rightarrow> d | Some v \<Rightarrow> if v = 0 then d else v)"

definition tierMultiplier :: "service \<Rightarrow> tier \<Rightarrow> rat" where
  "tierMultiplier service t =
     (case t of
        Standard \<Rightarrow> 1
      | Express \<Rightarrow> orDefault (expressPriceMultiplier service) (3 / 2)
      | Superfast \<Rightarrow> orDefault (superfastPriceMultiplier service) 2)"












text \<open>
  The priced items and the bill of an order are those of a list of request items when
  the pricing loop run on the list returns the order's items and bill amount.
\<close>

definition orderOfItems :: "(nat \<Rightarrow> service option) \<Rightarrow> item list \<Rightarrow> order \<Rightarrow> bool" where
  "orderOfItems svcs its ord = (processItems svcs its (Some 0) [] = Inr (items ord, billAmount ord))"

text \<open>The format \<open>WX-\<close> and five upper-case hexadecimal characters.\<close>

definition wellFormedOrderId :: "string \<Rightarrow> bool" where
  "wellFormedOrderId s =
     (take 3 s = ''WX-'' \<and> length s = 8 \<and> set (drop 3 s) \<subseteq> set ''0123456789ABCDEF'')"

text \<open>An identifier that no order of a list holds.\<close>

definition freeOrderId :: "order list \<Rightarrow> string \<Rightarrow> bool" where
  "freeOrderId os oid = (find (\<lambda>ord. orderId ord = oid) os = None)"

text \<open>
  A submission of three items in two tiers: express Wash and Iron, a standard ironing
  job, and express shoes.
\<close>

definition sampleItems :: "item list" where
  "sampleItems =
     [(blankItem 2 Express)\<lparr>weightInKg := Some 3\<rparr>,
      (blankItem 3 Standard)\<lparr>subItems :=
         Some [\<lparr>itemName = ''Shirt'', quantity = Some 4, pricePerItem = None\<rparr>]\<rparr>,
      (blankItem 5 Express)\<lparr>pairCount := Some 2\<rparr>]"

text \<open>The sum of a list of numbers, added from 0 in the order of the list.\<close>

definition sumNumbers :: "number list \<Rightarrow> number" where
  "sumNumbers xs = foldl js_add (Some 0) xs"

text \<open>The bill of an order is the sum of the totals of its items.\<close>

definition billMatches :: "order \<Rightarrow> bool" where
  "billMatches ord = (billAmount ord = sumNumbers (map itemTotal (items ord)))"




section \<open>Facts shared by the properties of the update route\<close>

lemma repriceItems_frame:
  assumes "repriceItems zone svcs orig u = Inr priced"
  shows "priced = u\<lparr>pt_items := pt_items priced, pt_billAmount := pt_billAmount priced,
                    pt_expectedDeliveryDate := pt_expectedDeliveryDate priced\<rparr>"
  using assms
  by (auto simp: repriceItems_def split: option.splits sum.splits)

lemma put_orders_Inr:
  assumes "put_orders zone accepts st oid body = Inr (os', upd)"
  shows "\<exists>orig priced.
           find (\<lambda>ord. orderId ord = oid) (orders st) = Some orig
         \<and> repriceItems zone (services st) orig
               (setDeliverySlot (slots st)
                  (setDeliveryAgentName (staff st) (setPickupAgentName (staff st) body))) = Inr priced
         \<and> upd = applyUpdate orig (stripAddress priced)
         \<and> os' = replaceFirst oid upd (orders st)"
  using assms
  by (auto simp: put_orders_def Let_def split: option.splits sum.splits if_splits)

lemma updated_fields:
  assumes "put_orders zone accepts st oid body = Inr (os', upd)"
  shows "\<exists>orig priced.
           find (\<lambda>ord. orderId ord = oid) (orders st) = Some orig
         \<and> repriceItems zone (services st) orig
               (setDeliverySlot (slots st)
                  (setDeliveryAgentName (staff st) (setPickupAgentName (staff st) body))) = Inr priced
         \<and> deliverySlot upd = patched (deliverySlot orig)
              (pt_deliverySlot (setDeliverySlot (slots st) body))
         \<and> deliveryAgent upd = patched (deliveryAgent orig) (pt_deliveryAgent body)
         \<and> pickupAgent upd = patched (pickupAgent orig) (pt_pickupAgent body)
         \<and> deliveryAgentName upd = patched (deliveryAgentName orig)
              (pt_deliveryAgentName (setDeliveryAgentName (staff st) body))
         \<and> pickupAgentName upd = patched (pickupAgentName orig)
              (pt_pickupAgentName (setPickupAgentName (staff st) body))
         \<and> deliveryAddress upd = deliveryAddress orig
         \<and> deliverySociety upd = deliverySociety orig
         \<and> deliveryPincode upd = patched (deliveryPincode orig) (pt_deliveryPincode body)
         \<and> items upd = patched (items orig) (pt_items priced)
         \<and> billAmount upd = patched (billAmount orig) (pt_billAmount priced)"
proof -
  from put_orders_Inr [OF assms] obtain orig priced where
    f: "find (\<lambda>ord. orderId ord = oid) (orders st) = Some orig"
    and r: "repriceItems zone (services st) orig
               (setDeliverySlot (slots st)
                  (setDeliveryAgentName (staff st) (setPickupAgentName (staff st) body))) = Inr priced"
    and u: "upd = applyUpdate orig (stripAddress priced)"
    by blast
  note fr = repriceItems_frame [OF r]
  have "deliverySlot upd = patched (deliverySlot orig) (pt_deliverySlot (setDeliverySlot (slots st) body))"
    unfolding u by (subst fr)
      (simp add: applyUpdate_def stripAddress_def setDeliverySlot_def setDeliveryAgentName_def
         setPickupAgentName_def split: option.splits)
  moreover have "deliveryAgent upd = patched (deliveryAgent orig) (pt_deliveryAgent body)"
    unfolding u by (subst fr)
      (simp add: applyUpdate_def stripAddress_def setDeliverySlot_def setDeliveryAgentName_def
         setPickupAgentName_def split: option.splits)
  moreover have "pickupAgent upd = patched (pickupAgent orig) (pt_pickupAgent body)"
    unfolding u by (subst fr)
      (simp add: applyUpdate_def stripAddress_def setDeliverySlot_def setDeliveryAgentName_def
         setPickupAgentName_def split: option.splits)
  moreover have "deliveryAgentName upd = patched (deliveryAgentName orig)
              (pt_deliveryAgentName (setDeliveryAgentName (staff st) body))"
    unfolding u by (subst fr)
      (simp add: applyUpdate_def stripAddress_def setDeliverySlot_def setDeliveryAgentName_def
         setPickupAgentName_def split: option.splits)
  moreover have "pickupAgentName upd = patched (pickupAgentName orig)
              (pt_pickupAgentName (setPickupAgentName (staff st) body))"
    unfolding u by (subst fr)
      (simp add: applyUpdate_def stripAddress_def setDeliverySlot_def setDeliveryAgentName_def
         setPickupAgentName_def split: option.splits)
  moreover have "deliveryAddress upd = deliveryAddress orig" "deliverySociety upd = deliverySociety orig"
    unfolding u by (simp_all add: applyUpdate_def stripAddress_def patched_def)
  moreover have "deliveryPincode upd = patched (deliveryPincode orig) (pt_deliveryPincode body)"
    unfolding u by (subst fr)
      (simp add: applyUpdate_def stripAddress_def setDeliverySlot_def setDeliveryAgentName_def
         setPickupAgentName_def split: option.splits)
  moreover have "items upd = patched (items orig) (pt_items priced)"
     "billAmount upd = patched (billAmount orig) (pt_billAmount priced)"
    unfolding u by (simp_all add: applyUpdate_def stripAddress_def)
  ultimately show ?thesis using f r by blast
qed

section \<open>Facts shared by the properties of pricing and creation\<close>

lemma find_holds: "find P xs = Some x \<Longrightarrow> x \<in> set xs \<and> P x"
  by (induction xs) (auto split: if_splits)

lemma multiplier_eq: "multiplier service t = Some (tierMultiplier service t)"
  by (cases t) (auto simp: multiplier_def tierMultiplier_def orDefault_def js_or_def truthy_def split: option.splits)

lemma js_or_orDefault: "js_or x (Some d) = Some (orDefault x d)"
  by (auto simp: orDefault_def js_or_def truthy_def split: option.splits)




lemma two_orders_created:
  "(case r of Some (st', n', Inr [ord1, ord2]) \<Rightarrow> P st' n' ord1 ord2 | _ \<Rightarrow> False) \<Longrightarrow>
   \<exists>st' n' ord1 ord2. r = Some (st', n', Inr [ord1, ord2]) \<and> P st' n' ord1 ord2"
  by (cases r) (auto split: sum.splits list.splits prod.splits)


section \<open>Facts about the grouping by tier\<close>








section \<open>Facts about the identifier generator\<close>

lemma hexDigit_in: "hexDigit n \<in> set ''0123456789abcdef''"
  unfolding hexDigit_def by (rule nth_mem) simp

lemma upper_hex: "c \<in> set ''0123456789abcdef'' \<Longrightarrow> toUpperChar c \<in> set ''0123456789ABCDEF''"
  by (simp add: toUpperChar_def) (elim disjE; simp)

lemma byteHex_set: "c \<in> set (byteHex b) \<Longrightarrow> c \<in> set ''0123456789abcdef''"
  using hexDigit_in [of "unat b div 16"] hexDigit_in [of "unat b mod 16"]
  unfolding byteHex_def by (simp only: set_simps insert_iff empty_iff) blast

lemma orderCode_shape: "length (orderCode bs) = 5 \<and> set (orderCode bs) \<subseteq> set ''0123456789ABCDEF''"
proof -
  obtain b1 b2 b3 where bs: "bs = (b1, b2, b3)" by (cases bs) auto
  have len: "length (orderCode bs) = 5"
    by (simp add: bs orderCode_def toUpperCase_def byteHex_def)
  have "c \<in> set ''0123456789abcdef''" if "c \<in> set (take 5 (byteHex b1 @ byteHex b2 @ byteHex b3))" for c
  proof -
    from that have "c \<in> set (byteHex b1 @ byteHex b2 @ byteHex b3)" by (rule in_set_takeD)
    then have "c \<in> set (byteHex b1) \<or> c \<in> set (byteHex b2) \<or> c \<in> set (byteHex b3)"
      by (simp only: set_append Un_iff)
    then show ?thesis using byteHex_set by blast
  qed
  then have "set (orderCode bs) \<subseteq> set ''0123456789ABCDEF''"
    unfolding bs orderCode_def toUpperCase_def prod.case set_map
    using upper_hex by blast
  with len show ?thesis by simp
qed

lemma wellFormed_draw: "wellFormedOrderId (''WX-'' @ orderCode bs)"
  using orderCode_shape [of bs] unfolding wellFormedOrderId_def by simp

lemma generateOrderId_result:
  assumes ret: "generateOrderId rnd os n = Some r"
  shows "\<exists>k. fst r = ''WX-'' @ orderCode (rnd k) \<and> n \<le> k \<and> snd r = Suc k \<and> freeOrderId os (fst r)"
proof (rule generateOrderId.raw_induct
    [where P = "\<lambda>rnd os n r. \<exists>k. fst r = ''WX-'' @ orderCode (rnd k) \<and> n \<le> k \<and> snd r = Suc k
                   \<and> freeOrderId os (fst r)"], goal_cases)
  case (1 gen rnd os n r)
  show ?case
  proof (cases "find (\<lambda>ord. orderId ord = ''WX-'' @ orderCode (rnd n)) os")
    case None
    with 1(2) have "r = (''WX-'' @ orderCode (rnd n), Suc n)" by simp
    with None show ?thesis by (auto simp: freeOrderId_def)
  next
    case (Some e)
    with 1(2) have "gen rnd os (Suc n) = Some r" by simp
    then have "\<exists>k. fst r = ''WX-'' @ orderCode (rnd k) \<and> Suc n \<le> k \<and> snd r = Suc k
                   \<and> freeOrderId os (fst r)"
      by (rule 1(1))
    then obtain k where
      k: "fst r = ''WX-'' @ orderCode (rnd k)" "Suc n \<le> k" "snd r = Suc k" "freeOrderId os (fst r)"
      by blast
    from k(2) have "n \<le> k" by simp
    with k show ?thesis by blast
  qed
next
  case 2
  show ?case by (rule ret)
qed

lemma generateOrderId_Some:
  assumes "generateOrderId rnd os n = Some (oid, n')"
  shows "\<exists>k. oid = ''WX-'' @ orderCode (rnd k) \<and> n \<le> k \<and> n' = Suc k \<and> freeOrderId os oid"
  using generateOrderId_result [OF assms] by simp


section \<open>Facts about the creation loop\<close>

lemma processItem_serviceType: "processItem service it = Inr p \<Longrightarrow> serviceType p = serviceType it"
  by (auto simp: processItem_def Let_def split: pricing_model.splits option.splits sum.splits)

lemma processItems_acc:
  assumes "processItems svcs its b acc = Inr (ps, bill)"
  shows "\<exists>new. ps = acc @ new \<and> map serviceType new = map serviceType its
            \<and> bill = foldl js_add b (map itemTotal new)"
  using assms
proof (induction its arbitrary: b acc)
  case Nil
  then show ?case by simp
next
  case (Cons it its)
  from Cons.prems obtain service p where
    svc: "svcs (serviceCategoryID it) = Some service"
    and p: "processItem service it = Inr p"
    and run: "processItems svcs its (js_add b (itemTotal p)) (acc @ [p]) = Inr (ps, bill)"
    by (auto split: option.splits sum.splits)
  from Cons.IH [OF run] obtain new where
    new: "ps = (acc @ [p]) @ new" "map serviceType new = map serviceType its"
         "bill = foldl js_add (js_add b (itemTotal p)) (map itemTotal new)"
    by blast
  have "ps = acc @ (p # new)" using new(1) by simp
  moreover have "map serviceType (p # new) = map serviceType (it # its)"
    using new(2) processItem_serviceType [OF p] by simp
  moreover have "bill = foldl js_add b (map itemTotal (p # new))"
    using new(3) by simp
  ultimately show ?case by blast
qed


lemma freeOrderId_iff: "freeOrderId os oid \<longleftrightarrow> oid \<notin> orderId ` set os"
  unfolding freeOrderId_def by (induction os) auto

lemma createOrder_Inl:
  "createOrder zone rnd now svcs req addr groupItems os n = Some (os', n', Inl e) \<Longrightarrow> os' = os"
  by (auto simp: createOrder_def Let_def
        split: sum.splits option.splits prod.splits js_date.splits if_splits)

lemma createOrder_Inr:
  assumes "createOrder zone rnd now svcs req addr groupItems os n = Some (os', n', Inr ord)"
  shows "os' = os @ [ord] \<and> orderOfItems svcs groupItems ord
       \<and> wellFormedOrderId (orderId ord) \<and> freeOrderId os (orderId ord) \<and> validOrder ord"
proof -
  from assms obtain ps bill soc oid expected where
    run: "processItems svcs groupItems (Some 0) [] = Inr (ps, bill)"
    and gen: "generateOrderId rnd os n = Some (oid, n')"
    and ord: "ord = newOrderData now req addr soc ps bill oid expected"
    and valid: "validOrder ord" and os': "os' = os @ [ord]"
    by (auto simp: createOrder_def Let_def
          split: sum.splits option.splits prod.splits js_date.splits if_splits)
  have fields: "items ord = ps" "billAmount ord = bill" "orderId ord = oid"
    by (simp_all add: ord newOrderData_def)
  from generateOrderId_Some [OF gen] obtain k where
    k: "oid = ''WX-'' @ orderCode (rnd k)" "freeOrderId os oid" by blast
  have "wellFormedOrderId oid" unfolding k(1) by (rule wellFormed_draw)
  with run k(2) valid os' fields show ?thesis by (simp add: orderOfItems_def)
qed

lemma createOrders_stored:
  assumes "createOrders zone rnd now svcs req addr groups os n created = Some (os', n', r)"
  shows "\<exists>new. os' = os @ new \<and> length new \<le> length groups
      \<and> list_all2 (\<lambda>g ord. orderOfItems svcs (snd g) ord) (take (length new) groups) new
      \<and> list_all (\<lambda>ord. wellFormedOrderId (orderId ord) \<and> freeOrderId os (orderId ord)
                          \<and> validOrder ord) new
      \<and> distinct (map orderId new)
      \<and> (case r of Inr res \<Rightarrow> res = created @ new \<and> length new = length groups
                  | Inl e \<Rightarrow> length new < length groups)"
  using assms
proof (induction groups arbitrary: os n created)
  case Nil
  then show ?case by auto
next
  case (Cons grp groups)
  from Cons.prems obtain os1 n1 r1 where
    first: "createOrder zone rnd now svcs req addr (snd grp) os n = Some (os1, n1, r1)"
    by (auto split: option.splits)
  show ?case
  proof (cases r1)
    case (Inl e)
    with Cons.prems first have "os' = os1" "r = Inl e" by auto
    moreover have "os1 = os" using first Inl createOrder_Inl by blast
    ultimately show ?thesis by (intro exI [of _ "[]"]) simp
  next
    case (Inr ord)
    with Cons.prems first have
      rest: "createOrders zone rnd now svcs req addr groups os1 n1 (created @ [ord]) = Some (os', n', r)"
      by simp
    from createOrder_Inr [OF first [unfolded Inr]] have
      one: "os1 = os @ [ord]" "orderOfItems svcs (snd grp) ord" "wellFormedOrderId (orderId ord)"
           "freeOrderId os (orderId ord)" "validOrder ord"
      by simp_all
    from Cons.IH [OF rest] obtain new where
      new: "os' = os1 @ new" "length new \<le> length groups"
        "list_all2 (\<lambda>g ord. orderOfItems svcs (snd g) ord) (take (length new) groups) new"
        "list_all (\<lambda>ord. wellFormedOrderId (orderId ord) \<and> freeOrderId os1 (orderId ord)
                          \<and> validOrder ord) new"
        "distinct (map orderId new)"
        "case r of Inr res \<Rightarrow> res = (created @ [ord]) @ new \<and> length new = length groups
                  | Inl e \<Rightarrow> length new < length groups"
      by blast
    have free: "freeOrderId os (orderId x) \<and> orderId x \<noteq> orderId ord" if "x \<in> set new" for x
    proof -
      from new(4) that have "freeOrderId os1 (orderId x)" by (simp add: list_all_iff)
      then show ?thesis unfolding one(1) freeOrderId_iff by auto
    qed
    have "os' = os @ (ord # new)" using new(1) one(1) by simp
    moreover have "length (ord # new) \<le> length (grp # groups)" using new(2) by simp
    moreover have "list_all2 (\<lambda>g ord. orderOfItems svcs (snd g) ord)
                     (take (length (ord # new)) (grp # groups)) (ord # new)"
      using new(3) one(2) by simp
    moreover have "list_all (\<lambda>ord. wellFormedOrderId (orderId ord) \<and> freeOrderId os (orderId ord)
                          \<and> validOrder ord) (ord # new)"
      using new(4) one(3,4,5) free by (simp add: list_all_iff)
    moreover have "distinct (map orderId (ord # new))"
    proof -
      have "orderId ord \<notin> set (map orderId new)"
      proof
        assume "orderId ord \<in> set (map orderId new)"
        then obtain x where "x \<in> set new" "orderId x = orderId ord" by auto
        with free show False by blast
      qed
      with new(5) show ?thesis by simp
    qed
    moreover have "case r of Inr res \<Rightarrow> res = created @ (ord # new)
                                  \<and> length (ord # new) = length (grp # groups)
                  | Inl e \<Rightarrow> length (ord # new) < length (grp # groups)"
      using new(6) by (cases r) simp_all
    ultimately show ?thesis by blast
  qed
qed






section \<open>Expected delivery\<close>

lemma hours_of_tier:
  "svcs (serviceCategoryID it) = Some service \<Longrightarrow>
   tatHoursOf (tatString service (serviceType it)) = itemTatHours svcs it"
  by (cases "serviceType it") (simp_all add: tatString_def itemTatHours_def)

lemma maxTatLoop_Max:
  "0 \<le> m \<Longrightarrow> maxTatLoop svcs its m = Max (insert m (itemTatHours svcs ` set its))"
proof (induction its arbitrary: m)
  case Nil
  then show ?case by simp
next
  case (Cons it its)
  let ?h = "itemTatHours svcs it"
  have step: "maxTatLoop svcs (it # its) m = maxTatLoop svcs its (max m ?h)"
  proof (cases "svcs (serviceCategoryID it)")
    case None
    then have "?h = 0" by (simp add: itemTatHours_def)
    with None Cons.prems show ?thesis by (simp add: max_def)
  next
    case (Some service)
    from hours_of_tier [where svcs = svcs and it = it, OF Some] Some show ?thesis
      by (simp add: Let_def max_def)
  qed
  have "0 \<le> max m ?h" using Cons.prems by simp
  then have "maxTatLoop svcs its (max m ?h) = Max (insert (max m ?h) (itemTatHours svcs ` set its))"
    by (rule Cons.IH)
  also have "\<dots> = Max (insert m (insert ?h (itemTatHours svcs ` set its)))"
  proof -
    have "Max (insert m (insert ?h (itemTatHours svcs ` set its)))
            = max m (Max (insert ?h (itemTatHours svcs ` set its)))"
      by (rule Max_insert) simp_all
    moreover have "Max (insert (max m ?h) (itemTatHours svcs ` set its))
            = max m (Max (insert ?h (itemTatHours svcs ` set its)))"
    proof (cases "itemTatHours svcs ` set its = {}")
      case True
      then show ?thesis by simp
    next
      case False
      then show ?thesis by (simp add: max.assoc)
    qed
    ultimately show ?thesis by simp
  qed
  finally show ?case using step by simp
qed

lemma maxTatLoop_zero:
  "maxTatLoop svcs its 0 = Max (insert 0 (itemTatHours svcs ` set its))"
  by (rule maxTatLoop_Max) simp

lemma maxTatLoop_positive:
  assumes "\<exists>it \<in> set its. 0 < itemTatHours svcs it"
  shows "maxTatLoop svcs its 0 = Max (itemTatHours svcs ` set its)
       \<and> 0 < Max (itemTatHours svcs ` set its)"
proof -
  from assms obtain it where it: "it \<in> set its" "0 < itemTatHours svcs it" by blast
  let ?A = "itemTatHours svcs ` set its"
  have ne: "?A \<noteq> {}" and fin: "finite ?A" using it by auto
  have "itemTatHours svcs it \<le> Max ?A" using it fin by simp
  then have big: "0 < Max ?A" using it by linarith
  have "Max (insert 0 ?A) = max 0 (Max ?A)" using fin ne by (rule Max_insert)
  then have "Max (insert 0 ?A) = Max ?A" using big by simp
  with big show ?thesis by (simp add: maxTatLoop_zero)
qed

text \<open>
  C6, as the code has it. \<open>calculateExpectedDelivery\<close> returns \<open>null\<close> when the start is
  absent, when the item list is empty, and when no item contributes a positive number of
  hours; a TAT string that is missing or does not start with a number contributes 0, and
  "48 Hours" contributes 48. Otherwise, with \<open>m\<close> the largest number of hours any item
  contributes (read from the TAT string of the item's tier), it returns the date whose
  local time in the server's zone is \<open>m\<close> hours after the local time of the start,
  which is the Invalid Date when that instant is no valid date. When the zone has one
  fixed offset and the instant \<open>m\<close> hours after the start is a valid date, it returns
  that instant.
\<close>

theorem expected_delivery:
  "calculateExpectedDelivery zone svcs its None = None
   \<and> calculateExpectedDelivery zone svcs [] start = None
   \<and> ((\<forall>it \<in> set its. itemTatHours svcs it \<le> 0) \<longrightarrow>
        calculateExpectedDelivery zone svcs its start = None)
   \<and> ((\<exists>it \<in> set its. 0 < itemTatHours svcs it) \<longrightarrow>
        calculateExpectedDelivery zone svcs its (Some (Date t))
          = Some (timeClip (utc zone
               (localTime zone t + Max (itemTatHours svcs ` set its) * 3600000))))
   \<and> ((\<exists>it \<in> set its. 0 < itemTatHours svcs it) \<longrightarrow>
        (\<forall>u. localTime zone u = u + offset) \<longrightarrow> (\<forall>u. utc zone u = u - offset) \<longrightarrow>
        \<bar>t + Max (itemTatHours svcs ` set its) * 3600000\<bar> \<le> 8640000000000000 \<longrightarrow>
        calculateExpectedDelivery zone svcs its (Some (Date t))
          = Some (Date (t + Max (itemTatHours svcs ` set its) * 3600000)))
   \<and> tatHoursOf None = 0
   \<and> (parseInt s = None \<longrightarrow> tatHoursOf (Some s) = 0)
   \<and> tatHoursOf (Some ''48 Hours'') = 48"
proof (intro conjI impI)
  show "calculateExpectedDelivery zone svcs its None = None"
    by (simp add: calculateExpectedDelivery_def)
  show "calculateExpectedDelivery zone svcs [] start = None"
    by (simp add: calculateExpectedDelivery_def split: option.splits)
  show "tatHoursOf None = 0"
    by code_simp
  show "tatHoursOf (Some ''48 Hours'') = 48"
    by code_simp
  show "tatHoursOf (Some s) = 0" if "parseInt s = None"
    using that by (simp add: tatHoursOf_def)
next
  assume low: "\<forall>it \<in> set its. itemTatHours svcs it \<le> 0"
  have "Max (insert 0 (itemTatHours svcs ` set its)) \<le> 0"
    by (rule Max.boundedI) (use low in auto)
  then have "\<not> 0 < maxTatLoop svcs its 0"
    by (simp only: maxTatLoop_zero not_less)
  then show "calculateExpectedDelivery zone svcs its start = None"
    by (simp add: calculateExpectedDelivery_def split: option.splits)
next
  assume pos: "\<exists>it \<in> set its. 0 < itemTatHours svcs it"
  from maxTatLoop_positive [OF pos]
  show "calculateExpectedDelivery zone svcs its (Some (Date t))
          = Some (timeClip (utc zone
               (localTime zone t + Max (itemTatHours svcs ` set its) * 3600000)))"
    by (simp add: calculateExpectedDelivery_def)
next
  assume pos: "\<exists>it \<in> set its. 0 < itemTatHours svcs it"
    and loc: "\<forall>u. localTime zone u = u + offset" and inv: "\<forall>u. utc zone u = u - offset"
    and range: "\<bar>t + Max (itemTatHours svcs ` set its) * 3600000\<bar> \<le> 8640000000000000"
  have "utc zone (localTime zone t + Max (itemTatHours svcs ` set its) * 3600000)
          = t + Max (itemTatHours svcs ` set its) * 3600000"
    by (simp add: loc inv)
  with maxTatLoop_positive [OF pos] range
  show "calculateExpectedDelivery zone svcs its (Some (Date t))
          = Some (Date (t + Max (itemTatHours svcs ` set its) * 3600000))"
    by (simp add: calculateExpectedDelivery_def timeClip_def)
qed

lemma tat_washAndIron_express:
  "itemTatHours seededServices ((blankItem 2 Express)\<lparr>weightInKg := Some 3\<rparr>) = 36"
  by code_simp

lemma tat_ironingOnly_superfast: "itemTatHours seededServices (blankItem 3 Superfast) = 12"
  by code_simp

text \<open>
  An item of a service the catalog does not have gives no date; an express Wash and Iron
  item (36 hours) and a superfast ironing item (12 hours), started at the epoch in the
  sample zone, give the instant 36 hours later.
\<close>

theorem expected_delivery_witness:
  "calculateExpectedDelivery sampleZone seededServices [blankItem 9 Standard] (Some (Date 0)) = None
   \<and> calculateExpectedDelivery sampleZone seededServices
        [(blankItem 2 Express)\<lparr>weightInKg := Some 3\<rparr>, blankItem 3 Superfast] (Some (Date 0))
      = Some (Date 129600000)
   \<and> tatHoursOf (Some ''Hours'') = 0"
proof -
  let ?its = "[(blankItem 2 Express)\<lparr>weightInKg := Some 3\<rparr>, blankItem 3 Superfast]"
  have a: "\<forall>it \<in> set [blankItem 9 Standard]. itemTatHours seededServices it \<le> 0"
    by (simp add: itemTatHours_def seededServices_def blankItem_def)
  have b: "\<exists>it \<in> set ?its. 0 < itemTatHours seededServices it"
    by (simp add: tat_washAndIron_express)
  have c: "parseInt ''Hours'' = None" by code_simp
  have m: "Max (itemTatHours seededServices ` set ?its) = 36"
    by (simp add: tat_washAndIron_express tat_ironingOnly_superfast)
  have loc: "\<forall>u. localTime sampleZone u = u + 19800000"
    and inv: "\<forall>u. utc sampleZone u = u - 19800000"
    by (simp_all add: sampleZone_def)
  have range: "\<bar>0 + Max (itemTatHours seededServices ` set ?its) * 3600000\<bar> \<le> (8640000000000000 :: int)"
    unfolding m by simp
  from expected_delivery [where zone = sampleZone and svcs = seededServices
         and its = "[blankItem 9 Standard]" and start = "Some (Date 0)" and s = "''Hours''"] a c
  have "calculateExpectedDelivery sampleZone seededServices [blankItem 9 Standard] (Some (Date 0)) = None"
    and "tatHoursOf (Some ''Hours'') = 0" by blast+
  moreover
  from expected_delivery [where zone = sampleZone and svcs = seededServices and its = ?its
         and t = 0 and offset = 19800000] b loc inv range
  have "calculateExpectedDelivery sampleZone seededServices ?its (Some (Date 0))
      = Some (Date (0 + Max (itemTatHours seededServices ` set ?its) * 3600000))"
    by blast
  ultimately show ?thesis
    by (simp add: tat_washAndIron_express tat_ironingOnly_superfast)
qed

lemma parse_slow: "parseInt ''2500000000 Hours'' = Some 2500000000"
  by (simp add: parseInt_def isStrWhiteSpace_def isDigit_def digitsValue_def Let_def)

lemma tat_slow: "itemTatHours slowServices (blankItem 2 Standard) = 2500000000"
  by (simp add: itemTatHours_def slowServices_def blankItem_def washAndIron_def tatHoursOf_def
        parse_slow)

text \<open>
  C6 as the specification states it fails where the start plus the hours is not what a
  \<open>Date\<close> can hold or the server's clocks change in between. A turnaround of
  2500000000 hours from the epoch is the instant 9000000000000000, beyond the range of
  a date: the code returns the Invalid Date. In a zone whose clocks go forward during
  the 36 hours the code returns the instant 35 hours after the start.
\<close>

theorem expected_delivery_counterexample:
  "calculateExpectedDelivery sampleZone slowServices [blankItem 2 Standard] (Some (Date 0))
     = Some Invalid_Date
   \<and> itemTatHours slowServices (blankItem 2 Standard) = 2500000000
   \<and> (0 :: int) + 2500000000 * 3600000 = 9000000000000000
   \<and> calculateExpectedDelivery springZone seededServices
        [(blankItem 2 Express)\<lparr>weightInKg := Some 3\<rparr>] (Some (Date 0))
     = Some (Date 126000000)
   \<and> (0 :: int) + 36 * 3600000 = 129600000"
  by (simp add: calculateExpectedDelivery_def maxTatLoop_zero tat_slow tat_washAndIron_express
        timeClip_def sampleZone_def springZone_def)

section \<open>The delivery slot on update\<close>




section \<open>The address snapshot on update\<close>

text \<open>
  The update route deletes \<open>deliveryAddress\<close> and \<open>deliverySociety\<close> from the patch,
  so these two fields of the snapshot keep the values of the stored order.
\<close>

lemma address_and_society_kept:
  assumes "put_orders zone accepts st oid body = Inr (os', upd)"
  shows "\<exists>orig. find (\<lambda>ord. orderId ord = oid) (orders st) = Some orig
     \<and> deliveryAddress upd = deliveryAddress orig \<and> deliverySociety upd = deliverySociety orig"
  using updated_fields [OF assms] by blast

text \<open>
  C7 asks the same of the pincode. The route does not delete \<open>deliveryPincode\<close>: a
  patch that carries only a pincode replaces the pincode of the sample order.
\<close>

theorem patch_overwrites_pincode:
  "\<exists>os upd. put_orders sampleZone (\<lambda>_ _. True) sampleStore ''WX-000CD''
        (blankPatch\<lparr>pt_deliveryPincode := Some (Some ''999999'')\<rparr>) = Inr (os, upd)
      \<and> deliveryPincode sampleOrder = Some ''500032''
      \<and> deliveryPincode upd = Some ''999999''"
  by (simp add: put_orders_def sampleStore_def sampleOrder_def sampleSlots_def blankPatch_def
          repriceItems_def Let_def setDeliverySlot_def setDeliveryAgentName_def
          setPickupAgentName_def stripAddress_def applyUpdate_def patched_def)

section \<open>Agent names on update\<close>



section \<open>The order of the checks of order creation\<close>

text \<open>
  C10, as the code has it. The route first answers EmptyOrder when the request has no
  items; only for a request with items does it look the customer up and answer
  CustomerNotFound; and only for a customer that exists does it answer
  NoCurrentAddress when the customer has no address.
\<close>

theorem creation_checks:
  "((rq_items req = None \<or> rq_items req = Some []) \<longrightarrow>
      post_orders zone rnd now st n req = Some (st, n, Inl EmptyOrder))
   \<and> (rq_items req = Some its \<and> its \<noteq> [] \<and> customers st (rq_customerID req) = None \<longrightarrow>
      post_orders zone rnd now st n req = Some (st, n, Inl CustomerNotFound))
   \<and> (rq_items req = Some its \<and> its \<noteq> [] \<and> customers st (rq_customerID req) = Some c
        \<and> currentAddressOf c = None \<longrightarrow>
      post_orders zone rnd now st n req = Some (st, n, Inl NoCurrentAddress))"
  by (auto simp: post_orders_def)

text \<open>One request for each of the three answers.\<close>

theorem creation_checks_witness:
  "post_orders sampleZone sampleBytes 0 sampleStore 0 (blankRequest 1 None) = Some (sampleStore, 0, Inl EmptyOrder)
   \<and> post_orders sampleZone sampleBytes 0 sampleStore 0 (blankRequest 7 (Some [blankItem 2 Standard]))
       = Some (sampleStore, 0, Inl CustomerNotFound)
   \<and> post_orders sampleZone sampleBytes 0
        (sampleStore\<lparr>customers := (\<lambda>i. Some (sampleCustomer\<lparr>addresses := []\<rparr>))\<rparr>) 0
        (blankRequest 1 (Some [blankItem 2 Standard]))
       = Some (sampleStore\<lparr>customers := (\<lambda>i. Some (sampleCustomer\<lparr>addresses := []\<rparr>))\<rparr>, 0,
               Inl NoCurrentAddress)"
  using creation_checks [where req = "blankRequest 1 None" and rnd = sampleBytes and now = 0
          and st = sampleStore and n = 0]
        creation_checks [where req = "blankRequest 7 (Some [blankItem 2 Standard])"
          and its = "[blankItem 2 Standard]" and rnd = sampleBytes and now = 0
          and st = sampleStore and n = 0]
        creation_checks [where req = "blankRequest 1 (Some [blankItem 2 Standard])"
          and its = "[blankItem 2 Standard]" and rnd = sampleBytes and now = 0
          and st = "sampleStore\<lparr>customers := (\<lambda>i. Some (sampleCustomer\<lparr>addresses := []\<rparr>))\<rparr>"
          and n = 0 and c = "sampleCustomer\<lparr>addresses := []\<rparr>"]
  by (simp add: blankRequest_def sampleStore_def currentAddressOf_def)

text \<open>
  C10 as the specification states it fails: a request that names the absent customer 7
  and has an empty item list is answered EmptyOrder, not CustomerNotFound.
\<close>

theorem creation_checks_counterexample:
  "customers sampleStore 7 = None
   \<and> post_orders sampleZone sampleBytes 0 sampleStore 0 (blankRequest 7 (Some []))
       = Some (sampleStore, 0, Inl EmptyOrder)"
  by (simp add: post_orders_def blankRequest_def sampleStore_def)

section \<open>Unit price and total of weighed and counted items\<close>

text \<open>
  C2, as the code has it. For a PerKg service the processed item has unit price: the
  request's \<open>pricePerKg\<close> when it is a number other than 0, else the catalog rate times
  the tier's multiplier, where the multiplier is 1 for Standard and, for Express and
  Superfast, the catalog's multiplier when it is a number other than 0, else 1.5 and 2;
  the item total is the weight times the unit price. The same holds for a PerPair
  service with the pair count and the rate per pair. The example of the specification
  (rate 80, Express at 1.5, 3 kg, no override) gives unit price 120 and total 360.
\<close>

theorem unit_price_and_total:
  "(pricingModel service = PerKg \<longrightarrow> weightInKg it = Some w \<longrightarrow> svc_pricePerKg service = Some rate \<longrightarrow>
      (\<exists>p. processItem service it = Inr p
         \<and> pricePerKg p = Some (orDefault (pricePerKg it) (rate * tierMultiplier service (serviceType it)))
         \<and> itemTotal p = Some (w * orDefault (pricePerKg it) (rate * tierMultiplier service (serviceType it)))))
   \<and> (pricingModel service = PerPair \<longrightarrow> pairCount it = Some c \<longrightarrow> svc_pricePerPair service = Some rate \<longrightarrow>
      (\<exists>p. processItem service it = Inr p
         \<and> pricePerPair p = Some (orDefault (pricePerPair it) (rate * tierMultiplier service (serviceType it)))
         \<and> itemTotal p = Some (c * orDefault (pricePerPair it) (rate * tierMultiplier service (serviceType it)))))
   \<and> (\<exists>p. processItem washAndFold ((blankItem 1 Express)\<lparr>weightInKg := Some 3\<rparr>) = Inr p
         \<and> pricePerKg p = Some 120 \<and> itemTotal p = Some 360)"
proof (intro conjI impI)
  assume "pricingModel service = PerKg" "weightInKg it = Some w" "svc_pricePerKg service = Some rate"
  then show "\<exists>p. processItem service it = Inr p
         \<and> pricePerKg p = Some (orDefault (pricePerKg it) (rate * tierMultiplier service (serviceType it)))
         \<and> itemTotal p = Some (w * orDefault (pricePerKg it) (rate * tierMultiplier service (serviceType it)))"
    by (simp add: processItem_def multiplier_eq js_mul_def js_or_orDefault)
next
  assume "pricingModel service = PerPair" "pairCount it = Some c" "svc_pricePerPair service = Some rate"
  then show "\<exists>p. processItem service it = Inr p
         \<and> pricePerPair p = Some (orDefault (pricePerPair it) (rate * tierMultiplier service (serviceType it)))
         \<and> itemTotal p = Some (c * orDefault (pricePerPair it) (rate * tierMultiplier service (serviceType it)))"
    by (simp add: processItem_def multiplier_eq js_mul_def js_or_orDefault)
next
  show "\<exists>p. processItem washAndFold ((blankItem 1 Express)\<lparr>weightInKg := Some 3\<rparr>) = Inr p
         \<and> pricePerKg p = Some 120 \<and> itemTotal p = Some 360"
    by (simp add: processItem_def washAndFold_def blankItem_def multiplier_def js_or_def js_mul_def truthy_def)
qed

text \<open>An overridden weighed item and a counted item of the seeded catalog.\<close>

theorem unit_price_and_total_witness:
  "(\<exists>p. processItem washAndIron ((blankItem 2 Superfast)\<lparr>weightInKg := Some 2, pricePerKg := Some 90\<rparr>) = Inr p
      \<and> pricePerKg p = Some 90 \<and> itemTotal p = Some 180)
   \<and> (\<exists>p. processItem shoesAndFootwear ((blankItem 5 Express)\<lparr>pairCount := Some 2\<rparr>) = Inr p
      \<and> pricePerPair p = Some 180 \<and> itemTotal p = Some 360)"
  using unit_price_and_total [where service = washAndIron
          and it = "(blankItem 2 Superfast)\<lparr>weightInKg := Some 2, pricePerKg := Some 90\<rparr>"
          and w = 2 and rate = 100]
        unit_price_and_total [where service = shoesAndFootwear
          and it = "(blankItem 5 Express)\<lparr>pairCount := Some 2\<rparr>" and c = 2 and rate = 120]
  by (simp add: washAndIron_def shoesAndFootwear_def blankItem_def tierMultiplier_def orDefault_def)

text \<open>
  C2 as the specification states it fails where a supplied number is 0. An override
  price of 0 on 3 kg of Wash and Fold is priced at the catalog rate, 240 and not
  3 * 0; and with the catalog's express multiplier set to 0 the express item is priced
  with 1.5, 360 and not 3 * 80 * 0.
\<close>

theorem override_zero_counterexample:
  "processItem washAndFold ((blankItem 1 Standard)\<lparr>weightInKg := Some 3, pricePerKg := Some 0\<rparr>)
     = Inr ((blankItem 1 Standard)\<lparr>weightInKg := Some 3, pricePerKg := Some 80, itemTotal := Some 240\<rparr>)
   \<and> 3 * spec_unitPrice (Some 0) 80 (spec_multiplier washAndFold Standard) = 0
   \<and> processItem (washAndFold\<lparr>expressPriceMultiplier := Some 0\<rparr>) ((blankItem 1 Express)\<lparr>weightInKg := Some 3\<rparr>)
     = Inr ((blankItem 1 Express)\<lparr>weightInKg := Some 3, pricePerKg := Some 120, itemTotal := Some 360\<rparr>)
   \<and> 3 * spec_unitPrice None 80 (spec_multiplier (washAndFold\<lparr>expressPriceMultiplier := Some 0\<rparr>) Express) = 0"
  by (simp add: processItem_def washAndFold_def blankItem_def multiplier_def js_or_def js_mul_def truthy_def
        spec_unitPrice_def spec_multiplier_def)

section \<open>Item totals are not negative\<close>












section \<open>One order per tier\<close>







section \<open>Itemised services\<close>








section \<open>The bill amount\<close>

lemma orderOfItems_bill: "orderOfItems svcs its ord \<Longrightarrow> billMatches ord"
  unfolding orderOfItems_def billMatches_def sumNumbers_def
  using processItems_acc [of svcs its "Some 0" "[]" "items ord" "billAmount ord"]
  by auto

lemma newOrderData_ignores_bill:
  "newOrderData now (req\<lparr>rq_billAmount := b\<rparr>) addr soc ps bill oid expected
     = newOrderData now req addr soc ps bill oid expected"
  "calculationStartDate now (req\<lparr>rq_billAmount := b\<rparr>) = calculationStartDate now req"
  by (simp_all add: newOrderData_def calculationStartDate_def)

lemma createOrder_ignores_bill:
  "createOrder zone rnd now svcs (req\<lparr>rq_billAmount := b\<rparr>) addr groupItems os n
     = createOrder zone rnd now svcs req addr groupItems os n"
  by (simp only: createOrder_def newOrderData_ignores_bill)

lemma createOrders_ignores_bill:
  "createOrders zone rnd now svcs (req\<lparr>rq_billAmount := b\<rparr>) addr groups os n created
     = createOrders zone rnd now svcs req addr groups os n created"
  by (induction groups arbitrary: os n created)
     (simp_all add: createOrder_ignores_bill cong: option.case_cong sum.case_cong prod.case_cong)

lemma post_orders_ignores_bill:
  "post_orders zone rnd now st n (req\<lparr>rq_billAmount := b\<rparr>) = post_orders zone rnd now st n req"
  by (simp add: post_orders_def createOrders_ignores_bill cong: option.case_cong if_cong)

lemma post_orders_stored:
  assumes "post_orders zone rnd now st n req = Some (st', n', r)"
  shows "\<exists>new. orders st' = orders st @ new \<and> list_all billMatches new
           \<and> (\<forall>created. r = Inr created \<longrightarrow> created = new)"
proof (cases "\<exists>its c addr. rq_items req = Some its \<and> its \<noteq> []
                \<and> customers st (rq_customerID req) = Some c \<and> currentAddressOf c = Some addr")
  case False
  with assms have "st' = st" "\<exists>e. r = Inl e"
    by (auto simp: post_orders_def split: option.splits if_splits)
  then show ?thesis by auto
next
  case True
  then obtain its c addr where
    c: "rq_items req = Some its" "its \<noteq> []"
       "customers st (rq_customerID req) = Some c" "currentAddressOf c = Some addr" by blast
  with assms obtain os' where
    loop: "createOrders zone rnd now (services st) req addr (itemGroups its) (orders st) n []
             = Some (os', n', r)"
    and st': "st' = st\<lparr>orders := os'\<rparr>"
    by (auto simp: post_orders_def split: option.splits prod.splits)
  from createOrders_stored [OF loop] obtain new where
    new: "os' = orders st @ new"
      "list_all2 (\<lambda>g ord. orderOfItems (services st) (snd g) ord)
         (take (length new) (itemGroups its)) new"
      "case r of Inr res \<Rightarrow> res = [] @ new \<and> length new = length (itemGroups its)
               | Inl e \<Rightarrow> length new < length (itemGroups its)"
    by blast
  have "billMatches ord" if "ord \<in> set new" for ord
  proof -
    from that obtain k where k: "k < length new" "new ! k = ord"
      by (auto simp: in_set_conv_nth)
    from list_all2_nthD2 [OF new(2) k(1)] k(2)
    have "orderOfItems (services st) (snd (take (length new) (itemGroups its) ! k)) ord"
      by simp
    then show ?thesis by (rule orderOfItems_bill)
  qed
  then have "list_all billMatches new" by (simp add: list_all_iff)
  moreover have "orders st' = orders st @ new" using st' new(1) by simp
  moreover have "\<forall>created. r = Inr created \<longrightarrow> created = new" using new(3) by auto
  ultimately show ?thesis by blast
qed

lemma patch_keys_kept:
  "pt_items (setDeliverySlot sl (setDeliveryAgentName stf (setPickupAgentName stf body))) = pt_items body"
  "pt_billAmount (setDeliverySlot sl (setDeliveryAgentName stf (setPickupAgentName stf body)))
     = pt_billAmount body"
  by (simp_all add: setDeliverySlot_def setDeliveryAgentName_def setPickupAgentName_def
        split: option.splits)

lemma repriceItems_bill:
  assumes "repriceItems zone svcs orig u = Inr priced"
  shows "(case pt_items u of
            None \<Rightarrow> pt_items priced = None \<and> pt_billAmount priced = pt_billAmount u
          | Some its \<Rightarrow> (\<exists>ps bill. processItems svcs its (Some 0) [] = Inr (ps, bill)
                           \<and> pt_items priced = Some ps \<and> pt_billAmount priced = Some bill))"
  using assms by (auto simp: repriceItems_def split: option.splits sum.splits)

lemma replaceFirst_all: "list_all P os \<Longrightarrow> P new \<Longrightarrow> list_all P (replaceFirst oid new os)"
  by (induction os) auto

lemma put_orders_bill:
  assumes run: "put_orders zone accepts st oid body = Inr (os', upd)"
  shows "(pt_items body \<noteq> None \<longrightarrow> billMatches upd)
       \<and> (pt_items body = None \<longrightarrow> pt_billAmount body = None \<longrightarrow>
            list_all billMatches (orders st) \<longrightarrow> billMatches upd)
       \<and> (billMatches upd \<longrightarrow> list_all billMatches (orders st) \<longrightarrow> list_all billMatches os')"
proof -
  from updated_fields [OF run] obtain orig priced where
    f: "find (\<lambda>ord. orderId ord = oid) (orders st) = Some orig"
    and r: "repriceItems zone (services st) orig
               (setDeliverySlot (slots st)
                  (setDeliveryAgentName (staff st) (setPickupAgentName (staff st) body))) = Inr priced"
    and i: "items upd = patched (items orig) (pt_items priced)"
    and b: "billAmount upd = patched (billAmount orig) (pt_billAmount priced)"
    by blast
  from put_orders_Inr [OF run] have os': "os' = replaceFirst oid upd (orders st)" by blast
  note rb = repriceItems_bill [OF r, unfolded patch_keys_kept]
  have "billMatches upd" if "pt_items body \<noteq> None"
  proof -
    from that obtain its where "pt_items body = Some its" by auto
    with rb obtain ps bill where
      "processItems (services st) its (Some 0) [] = Inr (ps, bill)"
      "pt_items priced = Some ps" "pt_billAmount priced = Some bill"
      by auto
    then have "orderOfItems (services st) its upd"
      by (simp add: orderOfItems_def i b patched_def)
    then show ?thesis by (rule orderOfItems_bill)
  qed
  moreover have "billMatches upd"
    if "pt_items body = None" "pt_billAmount body = None" "list_all billMatches (orders st)"
  proof -
    from that(1,2) rb have "pt_items priced = None" "pt_billAmount priced = None" by simp_all
    then have same: "items upd = items orig" "billAmount upd = billAmount orig"
      by (simp_all add: i b patched_def)
    from find_holds [OF f] that(3) have "billMatches orig" by (auto simp: list_all_iff)
    with same show ?thesis by (simp add: billMatches_def)
  qed
  moreover have "list_all billMatches os'"
    if "billMatches upd" "list_all billMatches (orders st)"
    unfolding os' using that(2,1) by (rule replaceFirst_all)
  ultimately show ?thesis by blast
qed

text \<open>
  C1, as the code has it. Every order the create route stores, also in a request that
  ends in an error, has a bill amount equal to the sum of its item totals, and the
  \<open>billAmount\<close> of the request does not change the outcome. After an update whose
  patch carries items the bill amount is the sum of the totals of the repriced items,
  whatever \<open>billAmount\<close> the patch carries; after an update whose patch carries
  neither items nor a bill amount the order keeps the property; and the stored orders
  keep it when the updated order has it.
\<close>

theorem bill_is_sum_of_totals:
  "(post_orders zone rnd now st n req = Some (st', n', r) \<longrightarrow>
      (\<exists>new. orders st' = orders st @ new \<and> list_all billMatches new
         \<and> (\<forall>created. r = Inr created \<longrightarrow> created = new)))
   \<and> post_orders zone rnd now st n (req\<lparr>rq_billAmount := b\<rparr>) = post_orders zone rnd now st n req
   \<and> (put_orders zone accepts st oid body = Inr (os', upd) \<longrightarrow>
        (pt_items body \<noteq> None \<longrightarrow> billMatches upd)
      \<and> (pt_items body = None \<longrightarrow> pt_billAmount body = None \<longrightarrow>
            list_all billMatches (orders st) \<longrightarrow> billMatches upd)
      \<and> (billMatches upd \<longrightarrow> list_all billMatches (orders st) \<longrightarrow> list_all billMatches os'))"
  using post_orders_stored [where zone = zone and rnd = rnd and now = now and st = st and n = n and req = req
          and st' = st' and n' = n' and r = r]
        post_orders_ignores_bill [where zone = zone and rnd = rnd and now = now and st = st and n = n
          and req = req and b = b]
        put_orders_bill [where zone = zone and accepts = accepts and st = st and oid = oid and body = body
          and os' = os' and upd = upd]
  by blast

text \<open>
  The sample submission sent with \<open>billAmount: 5\<close>, and a patch of the sample order
  that carries one item and \<open>billAmount: 1\<close>.
\<close>

theorem bill_is_sum_of_totals_witness:
  "(\<exists>st' n' ord1 ord2.
      post_orders sampleZone sampleBytes 1000 sampleStore 0
        ((blankRequest 1 (Some sampleItems))\<lparr>rq_billAmount := Some 5\<rparr>)
        = Some (st', n', Inr [ord1, ord2])
      \<and> billAmount ord1 = Some 810 \<and> billAmount ord2 = Some 80
      \<and> billMatches ord1 \<and> billMatches ord2)
   \<and> (\<exists>os upd.
      put_orders sampleZone (\<lambda>_ _. True) sampleStore ''WX-000CD''
        (blankPatch\<lparr>pt_items := Some [(blankItem 2 Standard)\<lparr>weightInKg := Some 2\<rparr>],
                     pt_billAmount := Some (Some 1)\<rparr>) = Inr (os, upd)
      \<and> billAmount upd = Some 200 \<and> billMatches upd)"
proof
  have "\<exists>st' n' ord1 ord2.
      post_orders sampleZone sampleBytes 1000 sampleStore 0 (blankRequest 1 (Some sampleItems))
        = Some (st', n', Inr [ord1, ord2])
      \<and> billAmount ord1 = Some 810 \<and> billAmount ord2 = Some 80"
    by (rule two_orders_created) code_simp
  then obtain st' n' ord1 ord2 where
    run: "post_orders sampleZone sampleBytes 1000 sampleStore 0 (blankRequest 1 (Some sampleItems))
        = Some (st', n', Inr [ord1, ord2])"
    and bills: "billAmount ord1 = Some 810" "billAmount ord2 = Some 80"
    by (elim exE conjE)
  note inst = bill_is_sum_of_totals [where zone = sampleZone and rnd = sampleBytes and now = 1000 and st = sampleStore
        and n = 0 and req = "blankRequest 1 (Some sampleItems)" and st' = st' and n' = n'
        and r = "Inr [ord1, ord2]" and b = "Some 5"]
  from inst run have same: "post_orders sampleZone sampleBytes 1000 sampleStore 0
        ((blankRequest 1 (Some sampleItems))\<lparr>rq_billAmount := Some 5\<rparr>)
        = Some (st', n', Inr [ord1, ord2])"
    by simp
  from inst run have "list_all billMatches [ord1, ord2]" by auto
  then have "billMatches ord1 \<and> billMatches ord2" by simp
  with same bills show "\<exists>st' n' ord1 ord2.
      post_orders sampleZone sampleBytes 1000 sampleStore 0
        ((blankRequest 1 (Some sampleItems))\<lparr>rq_billAmount := Some 5\<rparr>)
        = Some (st', n', Inr [ord1, ord2])
      \<and> billAmount ord1 = Some 810 \<and> billAmount ord2 = Some 80
      \<and> billMatches ord1 \<and> billMatches ord2"
    by (intro exI [of _ st'] exI [of _ n'] exI [of _ ord1] exI [of _ ord2]) simp
next
  let ?body = "blankPatch\<lparr>pt_items := Some [(blankItem 2 Standard)\<lparr>weightInKg := Some 2\<rparr>],
                     pt_billAmount := Some (Some 1)\<rparr>"
  have "case put_orders sampleZone (\<lambda>_ _. True) sampleStore ''WX-000CD'' ?body of
          Inr (os, upd) \<Rightarrow> billAmount upd = Some 200 | Inl e \<Rightarrow> False"
    by code_simp
  then obtain os upd where
    run: "put_orders sampleZone (\<lambda>_ _. True) sampleStore ''WX-000CD'' ?body = Inr (os, upd)"
    and bill: "billAmount upd = Some 200"
    by (auto split: sum.splits)
  have "pt_items ?body \<noteq> None" by simp
  with bill_is_sum_of_totals [where zone = sampleZone and accepts = "\<lambda>_ _. True" and st = sampleStore
        and oid = "''WX-000CD''" and body = ?body and os' = os and upd = upd] run
  have "billMatches upd" by blast
  with run bill show "\<exists>os upd.
      put_orders sampleZone (\<lambda>_ _. True) sampleStore ''WX-000CD'' ?body = Inr (os, upd)
      \<and> billAmount upd = Some 200 \<and> billMatches upd"
    by (intro exI [of _ os] exI [of _ upd]) simp
qed

text \<open>
  C1 as the specification states it fails: a patch that carries only \<open>billAmount: 999\<close>
  is written to the sample order, whose single item still totals 240.
\<close>

theorem patched_bill_counterexample:
  "\<exists>os upd. put_orders sampleZone (\<lambda>_ _. True) sampleStore ''WX-000CD''
        (blankPatch\<lparr>pt_billAmount := Some (Some 999)\<rparr>) = Inr (os, upd)
      \<and> billAmount upd = Some 999
      \<and> sumNumbers (map itemTotal (items upd)) = Some 240
      \<and> \<not> billMatches upd"
  by (simp add: put_orders_def sampleStore_def sampleOrder_def sampleSlots_def blankPatch_def
          repriceItems_def Let_def setDeliverySlot_def setDeliveryAgentName_def
          setPickupAgentName_def stripAddress_def applyUpdate_def patched_def
          billMatches_def sumNumbers_def blankItem_def js_add_def)

end
